theory Spec2Isabelle
  imports Main "HOL-Library.Word"
begin

unbundle bit_operations_syntax

section \<open>Bytes and strings\<close>

text \<open>
  A Go \<^verbatim>\<open>byte\<close> is an 8-bit word, a \<^verbatim>\<open>[]byte\<close> a list of them. A Go string is a
  sequence of bytes as well; it is modelled as a HOL \<open>string\<close>, whose characters are
  bytes. \<open>bytes\<close> is the conversion \<^verbatim>\<open>[]byte(s)\<close>, \<open>str\<close> is \<^verbatim>\<open>string(b)\<close>.
\<close>

type_synonym byte = "8 word"

definition bytes :: "string \<Rightarrow> byte list" where
  "bytes s = map (\<lambda>c. of_nat (of_char c)) s"

definition str :: "byte list \<Rightarrow> string" where
  "str b = map (\<lambda>x. char_of (unat x)) b"

section \<open>Constants of the connection (conn.go)\<close>

abbreviation finBit :: byte where "finBit \<equiv> 0x80"
abbreviation rsv1Bit :: byte where "rsv1Bit \<equiv> 0x40"
abbreviation rsv2Bit :: byte where "rsv2Bit \<equiv> 0x20"
abbreviation rsv3Bit :: byte where "rsv3Bit \<equiv> 0x10"
abbreviation maskBit :: byte where "maskBit \<equiv> 0x80"

abbreviation maxHeaderSize :: int where "maxHeaderSize \<equiv> 2 + 8 + 4"
abbreviation maxPayloadDate :: int where "maxPayloadDate \<equiv> 125"
abbreviation defaultReaderSize :: int where "defaultReaderSize \<equiv> 1024"
abbreviation defaultWriterSize :: int where "defaultWriterSize \<equiv> 1024"
abbreviation noFrame :: int where "noFrame \<equiv> -1"

abbreviation ContMessage :: int where "ContMessage \<equiv> 0"
abbreviation TextMessage :: int where "TextMessage \<equiv> 1"
abbreviation BinaryMessage :: int where "BinaryMessage \<equiv> 2"
abbreviation CloseMessage :: int where "CloseMessage \<equiv> 8"
abbreviation PingMessage :: int where "PingMessage \<equiv> 9"
abbreviation PongMessage :: int where "PongMessage \<equiv> 10"

abbreviation CloseNormalClosure :: int where "CloseNormalClosure \<equiv> 1000"
abbreviation CloseGoingAway :: int where "CloseGoingAway \<equiv> 1001"
abbreviation CloseProtocolError :: int where "CloseProtocolError \<equiv> 1002"
abbreviation CloseUnsupportedData :: int where "CloseUnsupportedData \<equiv> 1003"
abbreviation CloseNoStatusReceived :: int where "CloseNoStatusReceived \<equiv> 1005"
abbreviation CloseAbnormalClosure :: int where "CloseAbnormalClosure \<equiv> 1006"
abbreviation CloseInvalidFramePayloadData :: int where "CloseInvalidFramePayloadData \<equiv> 1007"
abbreviation ClosePolicyViolation :: int where "ClosePolicyViolation \<equiv> 1008"
abbreviation CloseMessageTooBig :: int where "CloseMessageTooBig \<equiv> 1009"
abbreviation CloseMandatoryExtension :: int where "CloseMandatoryExtension \<equiv> 1010"
abbreviation CloseInternalServerErr :: int where "CloseInternalServerErr \<equiv> 1011"
abbreviation CloseServiceRestart :: int where "CloseServiceRestart \<equiv> 1012"
abbreviation CloseTryAgainLater :: int where "CloseTryAgainLater \<equiv> 1013"
abbreviation CloseTLSHandshake :: int where "CloseTLSHandshake \<equiv> 1015"

section \<open>Close codes\<close>

text \<open>
  \<^verbatim>\<open>validReceivedCloseCodes\<close> is a Go map from int to bool, kept here as the association
  list of its literal. Looking up a key that is absent from a Go map gives the zero
  value, \<^verbatim>\<open>false\<close>.
\<close>

definition validReceivedCloseCodes :: "(int \<times> bool) list" where
  "validReceivedCloseCodes =
    [(CloseNormalClosure, True),
     (CloseGoingAway, True),
     (CloseProtocolError, True),
     (CloseUnsupportedData, True),
     (CloseNoStatusReceived, False),
     (CloseAbnormalClosure, False),
     (CloseInvalidFramePayloadData, True),
     (ClosePolicyViolation, True),
     (CloseMessageTooBig, True),
     (CloseMandatoryExtension, True),
     (CloseInternalServerErr, True),
     (CloseServiceRestart, True),
     (CloseTryAgainLater, True),
     (CloseTLSHandshake, False)]"

definition isValidReceivedCloseCode :: "int \<Rightarrow> bool" where
  "isValidReceivedCloseCode code =
    ((case map_of validReceivedCloseCodes code of Some b \<Rightarrow> b | None \<Rightarrow> False)
     \<or> (code \<ge> 3000 \<and> code \<le> 4999))"

text \<open>The close-code constants declared in the source, in declaration order.\<close>

definition closeCodes :: "int list" where
  "closeCodes =
    [CloseNormalClosure, CloseGoingAway, CloseProtocolError, CloseUnsupportedData,
     CloseNoStatusReceived, CloseAbnormalClosure, CloseInvalidFramePayloadData,
     ClosePolicyViolation, CloseMessageTooBig, CloseMandatoryExtension,
     CloseInternalServerErr, CloseServiceRestart, CloseTryAgainLater, CloseTLSHandshake]"

section \<open>Errors\<close>

text \<open>
  Every error value the library returns. \<open>CloseError\<close> is the struct of the same name;
  \<open>ErrorString\<close> is a value made by \<^verbatim>\<open>errors.New\<close>; \<open>RandError\<close> is a failure of the
  system random source; \<open>IOError\<close> is an error of the network or of the HTTP
  library; \<open>IndexPanic\<close> is Go's run-time panic on an index out of range.
\<close>

datatype error =
    CloseError (Code: int) (Text: string)
  | ErrorString string
  | RandError
  | IOError
  | IndexPanic

text \<open>
  \<^verbatim>\<open>strconv.AppendInt(s, i, 10)\<close>: the decimal digits of \<open>i\<close>, with a leading minus sign
  for a negative number.
\<close>

fun digits :: "nat \<Rightarrow> string" where
  "digits n = (if n < 10 then [''0123456789'' ! n]
               else digits (n div 10) @ [''0123456789'' ! (n mod 10)])"

declare digits.simps [simp del]

definition formatInt :: "int \<Rightarrow> string" where
  "formatInt i = (if i < 0 then CHR ''-'' # digits (nat (- i)) else digits (nat i))"

text \<open>\<^verbatim>\<open>CloseError.Error\<close>: the switch appends a label for twelve of the codes.\<close>

definition closeLabel :: "int \<Rightarrow> string" where
  "closeLabel code =
    (if code = CloseNormalClosure then '' (normal)''
     else if code = CloseGoingAway then '' (going away)''
     else if code = CloseProtocolError then '' (protocol error)''
     else if code = CloseUnsupportedData then '' (unsupported data)''
     else if code = CloseNoStatusReceived then '' (no status)''
     else if code = CloseAbnormalClosure then '' (abnormal closure)''
     else if code = CloseInvalidFramePayloadData then '' (invalid payload data)''
     else if code = ClosePolicyViolation then '' (policy violation)''
     else if code = CloseMessageTooBig then '' (message too big)''
     else if code = CloseMandatoryExtension then '' (manatory extension missing)''
     else if code = CloseInternalServerErr then '' (internal server error)''
     else if code = CloseTLSHandshake then '' (TLS handshake error)''
     else [])"

definition Error :: "int \<Rightarrow> string \<Rightarrow> string" where
  "Error code text =
    (let s = ''websocket: close '';
         s = s @ formatInt code;
         s = s @ closeLabel code;
         s = (if text \<noteq> [] then (s @ '': '') @ text else s)
     in s)"

text \<open>\<^verbatim>\<open>errUnexpectedEOF\<close>; \<^verbatim>\<open>io.ErrUnexpectedEOF.Error()\<close> is the string "unexpected EOF".\<close>

definition errUnexpectedEOF :: error where
  "errUnexpectedEOF = CloseError CloseAbnormalClosure ''unexpected EOF''"

definition errBadMessageCode :: error where
  "errBadMessageCode = ErrorString ''websocket: bad message code''"

section \<open>Big-endian integers (encoding/binary)\<close>

text \<open>
  \<^verbatim>\<open>binary.BigEndian\<close>: \<open>PutUint16\<close> and \<open>PutUint64\<close> store the most significant byte
  first, \<open>Uint16\<close> and \<open>Uint64\<close> read it back. Reading from a slice that is too short
  panics in Go; the callers below read from slices of exactly 2 and 8 bytes.
\<close>

definition PutUint16 :: "16 word \<Rightarrow> byte list" where
  "PutUint16 v = [ucast (drop_bit 8 v), ucast v]"

definition PutUint64 :: "64 word \<Rightarrow> byte list" where
  "PutUint64 v =
    [ucast (drop_bit 56 v), ucast (drop_bit 48 v), ucast (drop_bit 40 v), ucast (drop_bit 32 v),
     ucast (drop_bit 24 v), ucast (drop_bit 16 v), ucast (drop_bit 8 v), ucast v]"

definition Uint16 :: "byte list \<Rightarrow> 16 word" where
  "Uint16 b = (ucast (b ! 1)) OR push_bit 8 (ucast (b ! 0))"

definition Uint64 :: "byte list \<Rightarrow> 64 word" where
  "Uint64 b =
    (ucast (b ! 7)) OR push_bit 8 (ucast (b ! 6)) OR push_bit 16 (ucast (b ! 5)) OR
    push_bit 24 (ucast (b ! 4)) OR push_bit 32 (ucast (b ! 3)) OR push_bit 40 (ucast (b ! 2)) OR
    push_bit 48 (ucast (b ! 1)) OR push_bit 56 (ucast (b ! 0))"

section \<open>The connection\<close>

text \<open>
  A mask key is the \<^verbatim>\<open>[4]byte\<close> array of the source. \<open>maskAt m i\<close> is \<^verbatim>\<open>mask[i%4]\<close>.
\<close>

type_synonym mask = "byte \<times> byte \<times> byte \<times> byte"

fun maskAt :: "mask \<Rightarrow> nat \<Rightarrow> byte" where
  "maskAt (m0, m1, m2, m3) i =
    (if i mod 4 = 0 then m0 else if i mod 4 = 1 then m1 else if i mod 4 = 2 then m2 else m3)"

fun maskList :: "mask \<Rightarrow> byte list" where
  "maskList (m0, m1, m2, m3) = [m0, m1, m2, m3]"

text \<open>
  The loop \<^verbatim>\<open>for i := range payload { payload[i] ^= mask[i%4] }\<close>, started at index \<open>i\<close>.
\<close>

fun xorFrom :: "nat \<Rightarrow> mask \<Rightarrow> byte list \<Rightarrow> byte list" where
  "xorFrom i m [] = []"
| "xorFrom i m (b # bs) = (b XOR maskAt m i) # xorFrom (Suc i) m bs"

definition xorMask :: "mask \<Rightarrow> byte list \<Rightarrow> byte list" where
  "xorMask m payload = xorFrom 0 m payload"

text \<open>
  The state of a \<^verbatim>\<open>Conn\<close> together with the part of the world it touches:
  \<^item> \<open>isServer\<close>: the role flag;
  \<^item> \<open>br\<close>: the bytes of the peer's stream that the buffered reader has not yet handed
    out, up to the end of the stream;
  \<^item> \<open>wire\<close>: the bytes given to \<^verbatim>\<open>conn.Write\<close> so far, in order. Writes to the network
    connection are taken to succeed;
  \<^item> \<open>writer\<close>: whether the field \<^verbatim>\<open>c.writer\<close> is not nil;
  \<^item> \<open>rand\<close>: the future results of \<^verbatim>\<open>generateMask\<close>, that is of reading four bytes
    from \<^verbatim>\<open>crypto/rand\<close>: \<open>rand c 0\<close> is the next one, \<open>None\<close> is a failure of the
    random source;
  \<^item> \<open>closed\<close>: whether the network connection has been closed.
\<close>

record Conn =
  isServer :: bool
  br :: "byte list"
  wire :: "byte list"
  writer :: bool
  rand :: "nat \<Rightarrow> mask option"
  closed :: bool

definition newConn :: "byte list \<Rightarrow> (nat \<Rightarrow> mask option) \<Rightarrow> bool \<Rightarrow> Conn" where
  "newConn stream rnd srv =
    \<lparr>isServer = srv, br = stream, wire = [], writer = False, rand = rnd, closed = False\<rparr>"

definition Close :: "Conn \<Rightarrow> Conn" where
  "Close c = c\<lparr>closed := True\<rparr>"

definition generateMask :: "Conn \<Rightarrow> (error + mask) \<times> Conn" where
  "generateMask c =
    (case rand c 0 of
       None \<Rightarrow> (Inl RandError, c\<lparr>rand := (\<lambda>i. rand c (Suc i))\<rparr>)
     | Some m \<Rightarrow> (Inr m, c\<lparr>rand := (\<lambda>i. rand c (Suc i))\<rparr>))"

definition isControl :: "int \<Rightarrow> bool" where
  "isControl t = (t \<ge> CloseMessage \<and> t \<le> PongMessage)"

section \<open>The message writer\<close>

text \<open>
  \<open>msgWriter\<close> is the struct of the source; its field \<open>bw\<close> holds the bytes buffered in
  the \<^verbatim>\<open>bufio.Writer\<close>, whose buffer has \<open>bwSize\<close> bytes and whose underlying writer
  is the connection. The functions \<open>Available\<close>, \<open>Flush\<close>, \<open>WriteByte\<close> and \<open>bwWrite\<close>
  are the methods of \<^verbatim>\<open>bufio.Writer\<close>: a byte or a slice goes to the buffer when it
  fits; \<open>bwWrite\<close> hands a slice that does not fit to the connection directly when the
  buffer is empty, and otherwise fills the buffer, flushes it and goes on with the rest.
\<close>

record msgWriter =
  bw :: "byte list"
  fin :: bool
  mt :: int
  ft :: int

definition bwSize :: int where
  "bwSize = maxHeaderSize + defaultWriterSize"

definition Available :: "msgWriter \<Rightarrow> int" where
  "Available w = bwSize - int (length (bw w))"

definition Flush :: "msgWriter \<times> Conn \<Rightarrow> msgWriter \<times> Conn" where
  "Flush s = (case s of (w, c) \<Rightarrow> (w\<lparr>bw := []\<rparr>, c\<lparr>wire := wire c @ bw w\<rparr>))"

definition WriteByte :: "byte \<Rightarrow> msgWriter \<times> Conn \<Rightarrow> msgWriter \<times> Conn" where
  "WriteByte b s =
    (case (if Available (fst s) \<le> 0 then Flush s else s) of
       (w, c) \<Rightarrow> (w\<lparr>bw := bw w @ [b]\<rparr>, c))"

function bwWrite :: "byte list \<Rightarrow> msgWriter \<times> Conn \<Rightarrow> msgWriter \<times> Conn" where
  "bwWrite p (w, c) =
    (if int (length p) > Available w then
       (if bw w = [] then bwWrite [] (w, c\<lparr>wire := wire c @ p\<rparr>)
        else bwWrite (drop (nat (Available w)) p)
               (Flush (w\<lparr>bw := bw w @ take (nat (Available w)) p\<rparr>, c)))
     else (w\<lparr>bw := bw w @ p\<rparr>, c))"
  by pat_completeness auto
termination
  by (relation "measures [\<lambda>(p, w, c). length p, \<lambda>(p, w, c). if bw w = [] then 0 else 1]")
     (auto simp add: Available_def bwSize_def Flush_def)

declare bwWrite.simps [simp del]

text \<open>
  \<^verbatim>\<open>msgWriter.ncopy\<close>: the number of payload bytes of the next frame. It sets \<open>fin\<close>
  when the rest of the message fits.
\<close>

definition ncopy :: "int \<Rightarrow> msgWriter \<times> Conn \<Rightarrow> int \<times> (msgWriter \<times> Conn)" where
  "ncopy mx s =
    (let available = Available (fst s) - maxHeaderSize;
         s1 = (if available \<le> 0 then Flush s else s);
         available = (if available \<le> 0 then Available (fst s1) - maxHeaderSize else available);
         available = (if available < 126 - 8 then available + 8
                      else if available < 65536 - 6 then available + 6
                      else available)
     in if available \<ge> mx then (mx, ((fst s1)\<lparr>fin := True\<rparr>, snd s1))
        else (available, s1))"

text \<open>
  \<^verbatim>\<open>msgWriter.writeFrame\<close>: the header, the mask key of a client and the payload go to
  the buffered writer. The source masks the caller's slice in place; the model writes
  the masked bytes and leaves the caller's copy alone, which no caller below reads again.
\<close>

definition writeFrame :: "byte list \<Rightarrow> msgWriter \<times> Conn \<Rightarrow> error option \<times> (msgWriter \<times> Conn)" where
  "writeFrame payload s =
    (let b0 = (if fin (fst s) then of_int (ft (fst s)) OR finBit else of_int (ft (fst s)));
         s1 = WriteByte b0 s;
         b1 = (if \<not> isServer (snd s) then maskBit else 0);
         len = length payload;
         s2 = (if len \<ge> 65536 then
                 bwWrite (PutUint64 (of_nat len)) (WriteByte (b1 OR 127) s1)
               else if len > 125 then
                 bwWrite (PutUint16 (of_nat len)) (WriteByte (b1 OR 126) s1)
               else WriteByte (b1 OR of_nat len) s1)
     in if \<not> isServer (snd s) then
          (case generateMask (snd s2) of
             (Inl err, c') \<Rightarrow> (Some err, (fst s2, c'))
           | (Inr m, c') \<Rightarrow>
               (None, bwWrite (xorMask m payload) (bwWrite (maskList m) (fst s2, c'))))
        else (None, bwWrite payload s2))"

text \<open>The loop of \<^verbatim>\<open>msgWriter.Write\<close>: one frame per round, until nothing is left.\<close>

function writeLoop :: "byte list \<Rightarrow> msgWriter \<times> Conn \<Rightarrow> error option \<times> (msgWriter \<times> Conn)" where
  "writeLoop p s =
    (case ncopy (int (length p)) s of
       (n, s1) \<Rightarrow>
         (case writeFrame (take (nat n) p) s1 of
            (Some err, s2) \<Rightarrow> (Some err, s2)
          | (None, s2) \<Rightarrow>
              (if length (drop (nat n) p) = 0 then (None, ((fst s2)\<lparr>ft := ContMessage\<rparr>, snd s2))
               else writeLoop (drop (nat n) p) ((fst s2)\<lparr>ft := ContMessage\<rparr>, snd s2))))"
  by pat_completeness auto
termination
  by (relation "measure (\<lambda>(p, s). length p)")
     (auto simp add: ncopy_def Let_def Available_def bwSize_def Flush_def split: if_splits)

declare writeLoop.simps [simp del]

definition Write :: "byte list \<Rightarrow> msgWriter \<times> Conn \<Rightarrow> (error + int) \<times> (msgWriter \<times> Conn)" where
  "Write p s =
    (case writeLoop p ((fst s)\<lparr>ft := mt (fst s)\<rparr>, snd s) of
       (Some err, s') \<Rightarrow> (Inl err, s')
     | (None, s') \<Rightarrow> (Inr (int (length p)), ((fst s')\<lparr>fin := False\<rparr>, snd s')))"

definition msgWriter_Close :: "msgWriter \<times> Conn \<Rightarrow> msgWriter \<times> Conn" where
  "msgWriter_Close s = Flush (fst s, (snd s)\<lparr>writer := False\<rparr>)"

definition NextWriter :: "int \<Rightarrow> Conn \<Rightarrow> error + (msgWriter \<times> Conn)" where
  "NextWriter t c =
    (if writer c then Inl (ErrorString ''unclosed previous writer'')
     else Inr (\<lparr>bw = [], fin = False, mt = t, ft = 0\<rparr>, c\<lparr>writer := True\<rparr>))"

text \<open>
  \<^verbatim>\<open>Conn.WriteControl\<close> builds one frame and gives it to the connection, past the
  buffered writer.
\<close>

definition WriteControl :: "int \<Rightarrow> byte list \<Rightarrow> Conn \<Rightarrow> error option \<times> Conn" where
  "WriteControl t msg c =
    (if \<not> isControl t then (Some errBadMessageCode, c)
     else
       (let b0 = finBit OR of_int t;
            b1 = (if \<not> isServer c then of_nat (length msg) OR maskBit else of_nat (length msg));
            buf = [b0, b1]
        in if \<not> isServer c then
             (case generateMask c of
                (Inl err, c') \<Rightarrow> (Some err, c')
              | (Inr m, c') \<Rightarrow>
                  (None, c'\<lparr>wire := wire c' @ ((buf @ maskList m) @ xorMask m msg)\<rparr>))
           else (None, c\<lparr>wire := wire c @ (buf @ msg)\<rparr>)))"

definition WriteMessage :: "int \<Rightarrow> byte list \<Rightarrow> Conn \<Rightarrow> error option \<times> Conn" where
  "WriteMessage t msg c =
    (case NextWriter t c of
       Inl err \<Rightarrow> (Some err, c)
     | Inr s \<Rightarrow>
         (case Write msg s of
            (Inl err, s') \<Rightarrow> (Some err, snd s')
          | (Inr n, s') \<Rightarrow> (None, snd (msgWriter_Close s'))))"

section \<open>Close frames and control frames\<close>

definition FormatCloseMessage :: "int \<Rightarrow> string \<Rightarrow> byte list" where
  "FormatCloseMessage code msg =
    (if code = CloseNoStatusReceived then []
     else PutUint16 (of_int code) @ bytes msg)"

definition handleProtocolError :: "string \<Rightarrow> Conn \<Rightarrow> error \<times> Conn" where
  "handleProtocolError message c =
    (let data = FormatCloseMessage CloseProtocolError message;
         c' = snd (WriteMessage CloseMessage data c)
     in (ErrorString (''websocket: '' @ message), c'))"

definition handleClose :: "int \<Rightarrow> string \<Rightarrow> Conn \<Rightarrow> Conn" where
  "handleClose code text c = snd (WriteControl CloseMessage (FormatCloseMessage code text) c)"

definition handlePing :: "byte list \<Rightarrow> Conn \<Rightarrow> Conn" where
  "handlePing payload c = snd (WriteControl PongMessage payload c)"

definition handleControl :: "int \<Rightarrow> byte list \<Rightarrow> Conn \<Rightarrow> error option \<times> Conn" where
  "handleControl t payload c =
    (if t = CloseMessage then
       (if length payload \<ge> 2 then
          (let code = uint (Uint16 payload) in
           if \<not> isValidReceivedCloseCode code then
             (case handleProtocolError ''bad close code'' c of (err, c') \<Rightarrow> (Some err, c'))
           else
             (let text = str (drop 2 payload) in
              (Some (CloseError code text), handleClose code text c)))
        else
          (Some (CloseError CloseNoStatusReceived []),
           handleClose CloseNoStatusReceived [] c))
     else if t = PingMessage then (None, handlePing payload c)
     else if t = PongMessage then (None, c)
     else (None, c))"

section \<open>Reading\<close>

text \<open>
  \<^verbatim>\<open>bufio.Reader.Peek\<close> on a reader whose buffer has \<open>defaultReaderSize\<close> bytes, over
  the unread rest of the stream. Asked for more bytes than the buffer holds it returns
  what the buffer can be filled with, and the error \<^verbatim>\<open>ErrBufferFull\<close>, also at the
  end of the stream; asked for no more than that it returns the bytes, or, when the
  stream ends first, the bytes that are left and \<^verbatim>\<open>io.EOF\<close>.
\<close>

datatype peekError = PeekOk | EOF | ErrBufferFull | ErrNegativeCount

definition Peek :: "int \<Rightarrow> byte list \<Rightarrow> byte list \<times> peekError" where
  "Peek n stream =
    (if n < 0 then ([], ErrNegativeCount)
     else if n > defaultReaderSize then (take (nat defaultReaderSize) stream, ErrBufferFull)
     else if int (length stream) < n then (stream, EOF)
     else (take (nat n) stream, PeekOk))"

text \<open>\<^verbatim>\<open>Conn.read\<close>: only \<^verbatim>\<open>io.EOF\<close> is an error; the bytes peeked are discarded.\<close>

definition read :: "int \<Rightarrow> Conn \<Rightarrow> (error + byte list) \<times> Conn" where
  "read n c =
    (case Peek n (br c) of
       (p, err) \<Rightarrow>
         (if err = EOF then (Inl errUnexpectedEOF, c)
          else (Inr p, c\<lparr>br := drop (length p) (br c)\<rparr>)))"

text \<open>\<^verbatim>\<open>strings.Join\<close>.\<close>

fun Join :: "string list \<Rightarrow> string \<Rightarrow> string" where
  "Join [] sep = []"
| "Join [x] sep = x"
| "Join (x # y # r) sep = x @ sep @ Join (y # r) sep"

text \<open>
  The checks of \<^verbatim>\<open>ReadMessage\<close> on the first two bytes of a frame, after the check of
  the MASK bit: the list \<^verbatim>\<open>errors\<close> it collects.
\<close>

definition frameErrors :: "byte \<Rightarrow> int \<Rightarrow> int \<Rightarrow> bool \<Rightarrow> bool \<Rightarrow> string list" where
  "frameErrors p0 frameType len final first =
    (let rsv1 = (p0 AND rsv1Bit \<noteq> 0);
         rsv2 = (p0 AND rsv2Bit \<noteq> 0);
         rsv3 = (p0 AND rsv3Bit \<noteq> 0);
         errors = (if rsv1 \<or> rsv2 \<or> rsv3 then [''RSV bits set''] else [])
     in if frameType = CloseMessage \<or> frameType = PingMessage \<or> frameType = PongMessage then
          (let errors = (if len > maxPayloadDate then errors @ [''len > 125 for control''] else errors)
           in if \<not> final then errors @ [''FIN not set on control''] else errors)
        else if frameType = TextMessage \<or> frameType = BinaryMessage then
          (if \<not> first then errors @ [''data before FIN''] else errors)
        else if frameType = ContMessage then
          (if first then errors @ [''continuation after FIN''] else errors)
        else errors @ [''bad opcode '' @ formatInt frameType])"

text \<open>The extended payload length: the \<^verbatim>\<open>switch length\<close> of \<^verbatim>\<open>ReadMessage\<close>.\<close>

definition readLength :: "int \<Rightarrow> Conn \<Rightarrow> (error + int) \<times> Conn" where
  "readLength len c =
    (if len = 126 then
       (case read 2 c of
          (Inl err, c') \<Rightarrow> (Inl err, c')
        | (Inr p, c') \<Rightarrow>
            (if length p < 2 then (Inl IndexPanic, c') else (Inr (uint (Uint16 p)), c')))
     else if len = 127 then
       (case read 8 c of
          (Inl err, c') \<Rightarrow> (Inl err, c')
        | (Inr p, c') \<Rightarrow>
            (if length p < 8 then (Inl IndexPanic, c') else (Inr (sint (Uint64 p)), c')))
     else (Inr len, c))"

text \<open>
  The mask key: four bytes when the MASK bit is set, copied into an array that starts
  as zeros.
\<close>

definition byteAt :: "byte list \<Rightarrow> nat \<Rightarrow> byte" where
  "byteAt p i = (if i < length p then p ! i else 0)"

definition readMaskKey :: "bool \<Rightarrow> Conn \<Rightarrow> (error + mask) \<times> Conn" where
  "readMaskKey msk c =
    (if msk then
       (case read 4 c of
          (Inl err, c') \<Rightarrow> (Inl err, c')
        | (Inr p, c') \<Rightarrow> (Inr (byteAt p 0, byteAt p 1, byteAt p 2, byteAt p 3), c'))
     else (Inr (0, 0, 0, 0), c))"

text \<open>
  The payload: the loop \<^verbatim>\<open>for length > 0\<close> of \<^verbatim>\<open>ReadMessage\<close>. Nothing in it bounds
  the number of rounds, so it is a partial function: \<open>None\<close> is a loop that never ends.
\<close>

partial_function (option) readPayload ::
  "int \<Rightarrow> byte list \<Rightarrow> Conn \<Rightarrow> ((error + byte list) \<times> Conn) option" where
  [code]: "readPayload len buf c =
    (if len > 0 then
       (case read len c of
          (Inl err, c') \<Rightarrow> Some (Inl err, c')
        | (Inr p, c') \<Rightarrow> readPayload (len - int (length p)) (buf @ p) c')
     else Some (Inr buf, c))"

text \<open>
  \<^verbatim>\<open>Conn.ReadMessage\<close>, in two parts. \<open>readFrame\<close> is the code from the label
  \<^verbatim>\<open>again\<close> down to the unmasking of the payload: it reads one frame and returns its
  opcode, its FIN bit and its payload, or the error that \<^verbatim>\<open>ReadMessage\<close> returns there.
  \<open>readLoop\<close> is the whole loop, with the variables \<^verbatim>\<open>msg\<close>, \<^verbatim>\<open>messageType\<close> and
  \<^verbatim>\<open>first\<close> as arguments; the assignment \<^verbatim>\<open>messageType = frameType\<close> of the source's
  validation switch is made there, after the frame has been read, since every error
  return in between gives \<^verbatim>\<open>noFrame\<close> back. The result of \<open>readLoop\<close> is the error,
  or the message type and the message; \<open>None\<close> is a call that never returns.
\<close>

definition readFrame ::
  "bool \<Rightarrow> Conn \<Rightarrow> ((error + int \<times> bool \<times> byte list) \<times> Conn) option" where
  "readFrame first c =
    (case read 2 c of
       (Inl err, c1) \<Rightarrow> Some (Inl err, c1)
     | (Inr p, c1) \<Rightarrow>
         (if length p < 2 then Some (Inl IndexPanic, c1)
          else
            (let frameType = uint (p ! 0 AND 0xf);
                 final = (p ! 0 AND finBit \<noteq> 0);
                 msk = (p ! 1 AND maskBit \<noteq> 0);
                 len = uint (p ! 1 AND 0x7f)
             in if msk \<noteq> isServer c1 then Some (Inl (ErrorString ''bad MASK''), c1)
                else
                  (let errors = frameErrors (p ! 0) frameType len final first
                   in if length errors > 0 then
                        (case handleProtocolError (Join errors '','') c1 of
                           (err, c2) \<Rightarrow> Some (Inl err, c2))
                      else
                        (case readLength len c1 of
                           (Inl err, c2) \<Rightarrow> Some (Inl err, c2)
                         | (Inr len, c2) \<Rightarrow>
                             (case readMaskKey msk c2 of
                                (Inl err, c3) \<Rightarrow> Some (Inl err, c3)
                              | (Inr maskKey, c3) \<Rightarrow>
                                  (case readPayload len [] c3 of
                                     None \<Rightarrow> None
                                   | Some (Inl err, c4) \<Rightarrow> Some (Inl err, c4)
                                   | Some (Inr buf, c4) \<Rightarrow>
                                       Some (Inr (frameType, final,
                                                  if msk then xorMask maskKey buf else buf),
                                             c4))))))))"

partial_function (option) readLoop ::
  "byte list \<Rightarrow> int \<Rightarrow> bool \<Rightarrow> Conn \<Rightarrow> ((error + int \<times> byte list) \<times> Conn) option" where
  [code]: "readLoop msg messageType first c =
    (case readFrame first c of
       None \<Rightarrow> None
     | Some (Inl err, c1) \<Rightarrow> Some (Inl err, c1)
     | Some (Inr (frameType, final, buf), c1) \<Rightarrow>
         (let messageType = (if frameType = TextMessage \<or> frameType = BinaryMessage
                             then frameType else messageType)
          in if isControl frameType then
               (case handleControl frameType buf c1 of
                  (Some err, c2) \<Rightarrow> Some (Inl err, c2)
                | (None, c2) \<Rightarrow>
                    readLoop msg messageType (if messageType \<noteq> noFrame then False else first) c2)
             else if \<not> final then readLoop (msg @ buf) messageType False c1
             else Some (Inr (messageType, msg @ buf), c1)))"

definition ReadMessage :: "Conn \<Rightarrow> ((error + int \<times> byte list) \<times> Conn) option" where
  "ReadMessage c = readLoop [] noFrame True c"

section \<open>The client handshake (websocket.go)\<close>

text \<open>
  An HTTP response as far as the handshake looks at it: the status code and the header,
  a function from a header name to the list of its values (\<^verbatim>\<open>Header.Values\<close>).
\<close>

record Response =
  StatusCode :: int
  Header :: "string \<Rightarrow> string list"

definition checkHeader :: "(string \<Rightarrow> string list) \<Rightarrow> string \<Rightarrow> string \<Rightarrow> bool" where
  "checkHeader header key val =
    (let vals = header key in if length vals = 1 then vals ! 0 = val else False)"

definition validateResponse :: "Response \<Rightarrow> bool" where
  "validateResponse resp =
    (StatusCode resp = 101 \<and>
     checkHeader (Header resp) ''Upgrade'' ''websocket'' \<and>
     checkHeader (Header resp) ''Connection'' ''Upgrade'')"

definition errBadUrl :: error where
  "errBadUrl = ErrorString ''bad ws or wss url''"

definition errBadHandshake :: error where
  "errBadHandshake = ErrorString ''bad handshake''"

text \<open>
  What \<^verbatim>\<open>Dial\<close> gets from the world: the scheme of the parsed URL (\<open>None\<close> when
  \<^verbatim>\<open>url.Parse\<close> fails), the challenge key (\<open>None\<close> when the random source fails),
  whether \<^verbatim>\<open>net.Dial\<close> and \<^verbatim>\<open>req.Write\<close> succeed, the response that
  \<^verbatim>\<open>http.ReadResponse\<close> parses (\<open>None\<close> when it fails), the bytes of the stream after
  the response, and the future mask keys.
\<close>

record DialEnv =
  scheme :: "string option"
  challengeKey :: "string option"
  dialOk :: bool
  writeOk :: bool
  response :: "Response option"
  stream :: "byte list"
  masks :: "nat \<Rightarrow> mask option"

text \<open>
  \<^verbatim>\<open>Dial\<close> returns the error or the connection; the second component tells whether
  the socket was closed. The check of the response is a comment in the source, so the
  model has none.
\<close>

definition Dial :: "DialEnv \<Rightarrow> (error + Conn) \<times> bool" where
  "Dial env =
    (case scheme env of
       None \<Rightarrow> (Inl errBadUrl, False)
     | Some sch \<Rightarrow>
         (if sch \<noteq> ''ws'' \<and> sch \<noteq> ''wss'' then (Inl errBadUrl, False)
          else
            (case challengeKey env of
               None \<Rightarrow> (Inl RandError, False)
             | Some key \<Rightarrow>
                 (if \<not> dialOk env then (Inl IOError, False)
                  else if \<not> writeOk env then (Inl IOError, True)
                  else
                    (let conn = newConn (stream env) (masks env) False
                     in case response env of
                          None \<Rightarrow> (Inl IOError, True)
                        | Some resp \<Rightarrow> (Inr conn, False))))))"

section \<open>Bytes, words and masks\<close>

lemma Uint16_PutUint16: "Uint16 (PutUint16 v @ r) = v"
  unfolding Uint16_def PutUint16_def
  by (rule bit_word_eqI) (auto simp add: bit_simps dest: bit_imp_le_length)

lemma uint_code: "0 \<le> n \<Longrightarrow> n < 65536 \<Longrightarrow> uint (word_of_int n :: 16 word) = n"
  by (simp add: uint_word_of_int)

lemma str_bytes: "str (bytes s) = s"
  by (induction s) (simp_all add: str_def bytes_def unat_of_nat take_bit_eq_mod)

lemma xorFrom_xorFrom: "xorFrom i m (xorFrom i m p) = p"
  by (induction p arbitrary: i) (simp_all add: xor.assoc)

lemma length_xorFrom: "length (xorFrom i m p) = length p"
  by (induction p arbitrary: i) auto

lemma low7_of_nat: "n < 128 \<Longrightarrow> (of_nat n :: byte) AND 0x7f = of_nat n"
proof -
  assume n: "n < 128"
  have "(of_nat n :: byte) AND mask 7 = of_nat n"
    using n by (simp flip: take_bit_eq_mask add: take_bit_of_nat take_bit_nat_eq_self)
  then show ?thesis by (simp add: mask_eq_exp_minus_1)
qed

lemma uint_byte_of_nat: "n < 256 \<Longrightarrow> uint (of_nat n :: byte) = int n"
  by (simp add: uint_nat unat_of_nat take_bit_nat_eq_self)

lemma len7_plain: "n < 128 \<Longrightarrow> uint ((of_nat n :: byte) AND 0x7f) = int n"
  by (simp add: low7_of_nat uint_byte_of_nat)

lemma len7_masked: "n < 128 \<Longrightarrow> uint ((0x80 OR of_nat n :: byte) AND 0x7f) = int n"
  by (simp add: bit.conj_disj_distrib2 low7_of_nat uint_byte_of_nat)

lemma maskbit_set: "((0x80 OR x :: byte) AND 0x80 \<noteq> 0)"
  by (simp add: bit.conj_disj_distrib2 or_eq_0_iff)

lemma maskbit_clear: "n < 128 \<Longrightarrow> (of_nat n :: byte) AND 0x80 = 0"
proof -
  assume n: "n < 128"
  have "(of_nat n :: byte) AND 0x80 = ((of_nat n :: byte) AND 0x7f) AND 0x80"
    using n by (simp add: low7_of_nat)
  also have "\<dots> = 0" by (simp add: and.assoc)
  finally show ?thesis .
qed


lemma xorMask_xorMask: "xorMask m (xorMask m p) = p"
  by (simp add: xorMask_def xorFrom_xorFrom)

lemma length_xorMask: "length (xorMask m p) = length p"
  by (simp add: xorMask_def length_xorFrom)

lemma length_maskList: "length (maskList m) = 4"
  by (cases m) simp

lemma mask_of_maskList:
  "(byteAt (maskList k) 0, byteAt (maskList k) (Suc 0), byteAt (maskList k) 2,
    byteAt (maskList k) 3) = k"
  by (cases k) (simp add: byteAt_def)

lemma length_PutUint16: "length (PutUint16 v) = 2"
  by (simp add: PutUint16_def)

lemma length_bytes: "length (bytes s) = length s"
  by (simp add: bytes_def)

section \<open>Reading from the stream\<close>

lemma read_ok:
  "0 \<le> n \<Longrightarrow> n \<le> 1024 \<Longrightarrow> n \<le> int (length (br c)) \<Longrightarrow>
   read n c = (Inr (take (nat n) (br c)), c\<lparr>br := drop (nat n) (br c)\<rparr>)"
  by (auto simp add: read_def Peek_def min_def)

lemma read_eof:
  "0 \<le> n \<Longrightarrow> n \<le> 1024 \<Longrightarrow> int (length (br c)) < n \<Longrightarrow> read n c = (Inl errUnexpectedEOF, c)"
  by (auto simp add: read_def Peek_def)

lemma read_big:
  "1024 < n \<Longrightarrow> read n c = (Inr (take 1024 (br c)), c\<lparr>br := drop 1024 (br c)\<rparr>)"
  by (auto simp add: read_def Peek_def min_def)

lemma readPayload_ok:
  "n \<le> length (br c) \<Longrightarrow>
   readPayload (int n) buf c = Some (Inr (buf @ take n (br c)), c\<lparr>br := drop n (br c)\<rparr>)"
proof (induction n arbitrary: buf c rule: less_induct)
  case (less n)
  show ?case
  proof (cases "n = 0")
    case True
    then show ?thesis by (subst readPayload.simps) simp
  next
    case False
    show ?thesis
    proof (cases "n \<le> 1024")
      case True
      with False less.prems show ?thesis
        apply (subst readPayload.simps)
        apply (simp add: read_ok)
        apply (subst readPayload.simps)
        apply simp
        done
    next
      case big: False
      let ?c = "c\<lparr>br := drop 1024 (br c)\<rparr>"
      have "readPayload (int (n - 1024)) (buf @ take 1024 (br c)) ?c =
            Some (Inr ((buf @ take 1024 (br c)) @ take (n - 1024) (br ?c)), ?c\<lparr>br := drop (n - 1024) (br ?c)\<rparr>)"
        using big less.prems by (intro less.IH) auto
      moreover have "take 1024 (br c) @ take (n - 1024) (drop 1024 (br c)) = take n (br c)"
        using big by (metis le_add_diff_inverse nat_le_linear take_add)
      ultimately show ?thesis
        using big less.prems
        apply (subst readPayload.simps)
        apply (simp add: read_big of_nat_diff)
        done
    qed
  qed
qed

lemma readFrame_masked_short:
  assumes "isServer c" and "length payload \<le> 125"
    and "br c = [b0, 0x80 OR of_nat (length payload)] @ maskList k @ xorMask k payload @ rest"
    and "frameErrors b0 (uint (b0 AND 0xf)) (int (length payload)) (b0 AND finBit \<noteq> 0) first = []"
  shows "readFrame first c =
           Some (Inr (uint (b0 AND 0xf), b0 AND finBit \<noteq> 0, payload), c\<lparr>br := rest\<rparr>)"
  using assms
  by (simp add: readFrame_def read_ok maskbit_set len7_masked readLength_def readMaskKey_def
      length_maskList length_xorMask readPayload_ok xorMask_xorMask mask_of_maskList)

lemma readFrame_plain_short:
  assumes "\<not> isServer c" and "length payload \<le> 125"
    and "br c = [b0, of_nat (length payload)] @ payload @ rest"
    and "frameErrors b0 (uint (b0 AND 0xf)) (int (length payload)) (b0 AND finBit \<noteq> 0) first = []"
  shows "readFrame first c =
           Some (Inr (uint (b0 AND 0xf), b0 AND finBit \<noteq> 0, payload), c\<lparr>br := rest\<rparr>)"
  using assms
  by (simp add: readFrame_def read_ok maskbit_clear len7_plain readLength_def readMaskKey_def
      readPayload_ok)

section \<open>The buffered writer\<close>

lemma Flush_stream: "Flush (w, c) = (w', c') \<Longrightarrow>
    wire c' @ bw w' = wire c @ bw w \<and> bw w' = [] \<and> isServer c' = isServer c \<and> rand c' = rand c
    \<and> fin w' = fin w \<and> ft w' = ft w \<and> mt w' = mt w \<and> br c' = br c \<and> writer c' = writer c \<and> closed c' = closed c"
  by (auto simp add: Flush_def)

lemma WriteByte_stream: "WriteByte b (w, c) = (w', c') \<Longrightarrow>
    wire c' @ bw w' = wire c @ bw w @ [b] \<and> isServer c' = isServer c \<and> rand c' = rand c
    \<and> fin w' = fin w \<and> ft w' = ft w \<and> mt w' = mt w \<and> br c' = br c \<and> writer c' = writer c \<and> closed c' = closed c"
  by (auto simp add: WriteByte_def Flush_def split: if_splits)

lemma bwWrite_stream: "bwWrite p (w, c) = (w', c') \<Longrightarrow>
    wire c' @ bw w' = wire c @ bw w @ p \<and> isServer c' = isServer c \<and> rand c' = rand c
    \<and> fin w' = fin w \<and> ft w' = ft w \<and> mt w' = mt w \<and> br c' = br c \<and> writer c' = writer c \<and> closed c' = closed c"
proof (induction p "(w, c)" arbitrary: w c rule: bwWrite.induct)
  case (1 p w c)
  show ?case
  proof (cases "int (length p) > Available w")
    case False
    with "1.prems" show ?thesis by (auto simp add: bwWrite.simps)
  next
    case big: True
    show ?thesis
    proof (cases "bw w = []")
      case True
      from "1.hyps"(1) [OF big True] "1.prems" big True show ?thesis
        by (simp add: bwWrite.simps [of p])
    next
      case False
      obtain w1 c1 where f: "Flush (w\<lparr>bw := bw w @ take (nat (Available w)) p\<rparr>, c) = (w1, c1)"
        by (cases "Flush (w\<lparr>bw := bw w @ take (nat (Available w)) p\<rparr>, c)")
      from "1.hyps"(2) [OF big False f] "1.prems" big False f
      have "wire c' @ bw w' = wire c1 @ bw w1 @ drop (nat (Available w)) p \<and>
        isServer c' = isServer c1 \<and>
        rand c' = rand c1 \<and> fin w' = fin w1 \<and> ft w' = ft w1 \<and> mt w' = mt w1 \<and> br c' = br c1
         \<and> writer c' = writer c1 \<and> closed c' = closed c1"
        by (simp add: bwWrite.simps [of p])
      moreover have "wire c1 = wire c @ bw w @ take (nat (Available w)) p"
        using Flush_stream [OF f] by auto
      ultimately show ?thesis using Flush_stream [OF f] by auto
    qed
  qed
qed

lemma WriteByte_fits:
  "length (bw w) < 1038 \<Longrightarrow> WriteByte b (w, c) = (w\<lparr>bw := bw w @ [b]\<rparr>, c)"
  by (simp add: WriteByte_def Available_def bwSize_def)

lemma bwWrite_fits:
  "length (bw w) + length p \<le> 1038 \<Longrightarrow> bwWrite p (w, c) = (w\<lparr>bw := bw w @ p\<rparr>, c)"
  by (simp add: bwWrite.simps Available_def bwSize_def)

lemma unat_of_nat16: "n \<le> 65535 \<Longrightarrow> unat (of_nat n :: 16 word) = n"
  by (simp add: unat_of_nat take_bit_nat_eq_self)

lemma unat_of_nat64: "n < 2 ^ 64 \<Longrightarrow> unat (of_nat n :: 64 word) = n"
  by (simp add: unat_of_nat take_bit_nat_eq_self)

lemma low7_or_maskBit: "(0x80 OR x :: byte) AND 0x7f = x AND 0x7f"
  by (simp add: bit.conj_disj_distrib2)

lemma WriteByte_out:
  "wire (snd (WriteByte b s)) @ bw (fst (WriteByte b s)) = wire (snd s) @ bw (fst s) @ [b]"
  "isServer (snd (WriteByte b s)) = isServer (snd s)"
  "rand (snd (WriteByte b s)) = rand (snd s)"
  using WriteByte_stream [of b "fst s" "snd s" "fst (WriteByte b s)" "snd (WriteByte b s)"]
  by simp_all

lemma bwWrite_out:
  "wire (snd (bwWrite p s)) @ bw (fst (bwWrite p s)) = wire (snd s) @ bw (fst s) @ p"
  "isServer (snd (bwWrite p s)) = isServer (snd s)"
  "rand (snd (bwWrite p s)) = rand (snd s)"
  using bwWrite_stream [of p "fst s" "snd s" "fst (bwWrite p s)" "snd (bwWrite p s)"]
  by simp_all

lemma writeFrame_stream:
  assumes "writeFrame payload s = (None, s')"
  shows "\<exists>b0 b1 key body.
          length key = (if isServer (snd s) then 0 else 4) \<and> length body = length payload \<and>
          wire (snd s') @ bw (fst s') =
            wire (snd s) @ bw (fst s) @ [b0, b1] @
            (if length payload \<ge> 65536 then PutUint64 (of_nat (length payload))
             else if length payload > 125 then PutUint16 (of_nat (length payload)) else []) @
            key @ body \<and>
          b1 AND 0x7f =
            (if length payload \<ge> 65536 then 127 else if length payload > 125 then 126
             else of_nat (length payload) AND 0x7f)"
proof (cases "isServer (snd s)")
  case True
  with assms have s': "s' = bwWrite payload (if length payload \<ge> 65536 then
                 bwWrite (PutUint64 (of_nat (length payload))) (WriteByte (0 OR 127) (WriteByte (if fin (fst s) then of_int (ft (fst s)) OR finBit else of_int (ft (fst s))) s))
               else if length payload > 125 then
                 bwWrite (PutUint16 (of_nat (length payload))) (WriteByte (0 OR 126) (WriteByte (if fin (fst s) then of_int (ft (fst s)) OR finBit else of_int (ft (fst s))) s))
               else WriteByte (0 OR of_nat (length payload)) (WriteByte (if fin (fst s) then of_int (ft (fst s)) OR finBit else of_int (ft (fst s))) s))"
    by (simp add: writeFrame_def Let_def)
  show ?thesis
    apply (rule exI [where x = "if fin (fst s) then of_int (ft (fst s)) OR finBit else of_int (ft (fst s))"])
    apply (rule exI [where x = "if length payload \<ge> 65536 then 127 else if length payload > 125 then 126 else of_nat (length payload)"])
    apply (rule exI [where x = "[]"])
    apply (rule exI [where x = "payload"])
    using True
    apply (simp add: s' bwWrite_out WriteByte_out)
    done
next
  case False
  define b0 :: byte where
    "b0 = (if fin (fst s) then of_int (ft (fst s)) OR finBit else of_int (ft (fst s)))"
  define s2 where "s2 = (if length payload \<ge> 65536 then
                 bwWrite (PutUint64 (of_nat (length payload))) (WriteByte (maskBit OR 127) (WriteByte b0 s))
               else if length payload > 125 then
                 bwWrite (PutUint16 (of_nat (length payload))) (WriteByte (maskBit OR 126) (WriteByte b0 s))
               else WriteByte (maskBit OR of_nat (length payload)) (WriteByte b0 s))"
  have wf: "writeFrame payload s =
      (case generateMask (snd s2) of
         (Inl err, c') \<Rightarrow> (Some err, (fst s2, c'))
       | (Inr m, c') \<Rightarrow>
           (None, bwWrite (xorMask m payload) (bwWrite (maskList m) (fst s2, c'))))"
    unfolding writeFrame_def Let_def s2_def b0_def using False by simp
  from assms obtain m where m: "rand (snd s2) 0 = Some m"
    and s': "s' = bwWrite (xorMask m payload)
                    (bwWrite (maskList m) (fst s2, (snd s2)\<lparr>rand := (\<lambda>i. rand (snd s2) (Suc i))\<rparr>))"
    unfolding wf by (auto simp add: generateMask_def split: option.splits)
  show ?thesis
    apply (rule exI [where x = b0])
    apply (rule exI [where x = "if length payload \<ge> 65536 then maskBit OR 127 else if length payload > 125 then maskBit OR 126 else maskBit OR of_nat (length payload)"])
    apply (rule exI [where x = "maskList m"])
    apply (rule exI [where x = "xorMask m payload"])
    using False
    apply (simp add: s' s2_def bwWrite_out WriteByte_out length_maskList length_xorMask
        low7_or_maskBit)
    done
qed

section \<open>Frames written and frames read\<close>

lemma ncopy_start:
  assumes "bw w = [] \<or> 1024 \<le> length (bw w)"
  shows "ncopy mx (w, c) =
          (if mx \<le> 1030 then (mx, (w\<lparr>bw := [], fin := True\<rparr>, c\<lparr>wire := wire c @ bw w\<rparr>))
           else (1030, (w\<lparr>bw := []\<rparr>, c\<lparr>wire := wire c @ bw w\<rparr>)))"
  using assms
  by (auto simp add: ncopy_def Let_def Available_def bwSize_def Flush_def)

lemma writeFrame_server:
  assumes "isServer c" and "bw w = []" and "length payload \<le> 1030"
  shows "writeFrame payload (w, c) =
           (None, (w\<lparr>bw := [if fin w then of_int (ft w) OR finBit else of_int (ft w)] @
                          (if length payload > 125 then [126] @ PutUint16 (of_nat (length payload))
                           else [of_nat (length payload)]) @ payload\<rparr>, c))"
  using assms
  by (simp add: writeFrame_def Let_def WriteByte_fits bwWrite_fits length_PutUint16)

lemma writeFrame_client:
  assumes "\<not> isServer c" and "bw w = []" and "length payload \<le> 1030" and "rand c 0 = Some m"
  shows "writeFrame payload (w, c) =
           (None, (w\<lparr>bw := [if fin w then of_int (ft w) OR finBit else of_int (ft w)] @
                          (if length payload > 125
                           then [maskBit OR 126] @ PutUint16 (of_nat (length payload))
                           else [maskBit OR of_nat (length payload)]) @
                          maskList m @ xorMask m payload\<rparr>,
                   c\<lparr>rand := (\<lambda>i. rand c (Suc i))\<rparr>))"
  using assms
  by (simp add: writeFrame_def Let_def WriteByte_fits bwWrite_fits length_PutUint16
      generateMask_def length_maskList length_xorMask)

lemma Uint16_PutUint16_plain: "Uint16 (PutUint16 v) = v"
  using Uint16_PutUint16 [of v "[]"] by simp

lemma uint_of_nat16: "n \<le> 65535 \<Longrightarrow> uint (of_nat n :: 16 word) = int n"
  by (simp add: uint_nat unat_of_nat16)

lemma readFrame_masked_ext:
  assumes "isServer c" and "length payload \<le> 65535"
    and "br c = [b0, maskBit OR 126] @ PutUint16 (of_nat (length payload)) @ maskList k @
                xorMask k payload @ rest"
    and "frameErrors b0 (uint (b0 AND 0xf)) 126 (b0 AND finBit \<noteq> 0) first = []"
  shows "readFrame first c =
           Some (Inr (uint (b0 AND 0xf), b0 AND finBit \<noteq> 0, payload), c\<lparr>br := rest\<rparr>)"
  using assms
  by (simp add: readFrame_def read_ok readLength_def readMaskKey_def length_PutUint16
      Uint16_PutUint16_plain uint_of_nat16
      length_maskList length_xorMask readPayload_ok xorMask_xorMask mask_of_maskList)

lemma readFrame_plain_ext:
  assumes "\<not> isServer c" and "length payload \<le> 65535"
    and "br c = [b0, 126] @ PutUint16 (of_nat (length payload)) @ payload @ rest"
    and "frameErrors b0 (uint (b0 AND 0xf)) 126 (b0 AND finBit \<noteq> 0) first = []"
  shows "readFrame first c =
           Some (Inr (uint (b0 AND 0xf), b0 AND finBit \<noteq> 0, payload), c\<lparr>br := rest\<rparr>)"
  using assms
  by (simp add: readFrame_def read_ok readLength_def readMaskKey_def length_PutUint16
      Uint16_PutUint16_plain uint_of_nat16 readPayload_ok)

lemma data_header:
  assumes "t = ContMessage \<or> t = TextMessage \<or> t = BinaryMessage"
    and "first = (t \<noteq> ContMessage)"
  shows "uint ((if f then of_int t OR finBit else of_int t :: byte) AND 0xf) = t"
    and "((if f then of_int t OR finBit else of_int t :: byte) AND finBit \<noteq> 0) = f"
    and "frameErrors (if f then of_int t OR finBit else of_int t)
           (uint ((if f then of_int t OR finBit else of_int t :: byte) AND 0xf)) n
           ((if f then of_int t OR finBit else of_int t :: byte) AND finBit \<noteq> 0) first = []"
  using assms by (elim disjE; cases f; simp add: frameErrors_def)+

lemma frame_roundtrip:
  assumes empty: "bw w = []"
    and len: "length payload \<le> 1030"
    and data: "ft w = ContMessage \<or> ft w = TextMessage \<or> ft w = BinaryMessage"
    and rnd: "isServer cw \<or> rand cw 0 \<noteq> None"
  shows "\<exists>frame.
           writeFrame payload (w, cw) =
             (None, (w\<lparr>bw := frame\<rparr>,
                     if isServer cw then cw else cw\<lparr>rand := (\<lambda>i. rand cw (Suc i))\<rparr>)) \<and>
           length payload + 2 \<le> length frame \<and>
           (\<forall>cr rest.
              isServer cr = (\<not> isServer cw) \<and> br cr = frame @ rest \<longrightarrow>
              readFrame (ft w \<noteq> ContMessage) cr =
                Some (Inr (ft w, fin w, payload), cr\<lparr>br := rest\<rparr>))"
proof -
  define b0 :: byte where "b0 = (if fin w then of_int (ft w) OR finBit else of_int (ft w))"
  have h1: "uint (b0 AND 0xf) = ft w" and h2: "(b0 AND finBit \<noteq> 0) = fin w"
    and h3: "frameErrors b0 (uint (b0 AND 0xf)) n (b0 AND finBit \<noteq> 0) (ft w \<noteq> ContMessage) = []" for n
    unfolding b0_def using data_header [OF data, of "ft w \<noteq> ContMessage" "fin w"] by simp_all
  show ?thesis
  proof (cases "isServer cw")
    case srv: True
    show ?thesis
    proof (cases "length payload \<le> 125")
      case True
      let ?frame = "[b0, of_nat (length payload)] @ payload"
      have w: "writeFrame payload (w, cw) = (None, (w\<lparr>bw := ?frame\<rparr>, cw))"
        using writeFrame_server [OF srv empty len] True by (simp add: b0_def)
      have r: "readFrame (ft w \<noteq> ContMessage) cr = Some (Inr (ft w, fin w, payload), cr\<lparr>br := rest\<rparr>)"
        if "isServer cr = (\<not> isServer cw)" "br cr = ?frame @ rest" for cr rest
        using readFrame_plain_short [of cr payload b0 rest "ft w \<noteq> ContMessage"] that srv True h3
        by (simp add: h1 h2)
      show ?thesis
        apply (rule exI [where x = ?frame])
        using w r srv by simp
    next
      case False
      let ?frame = "[b0, 126] @ PutUint16 (of_nat (length payload)) @ payload"
      have w: "writeFrame payload (w, cw) = (None, (w\<lparr>bw := ?frame\<rparr>, cw))"
        using writeFrame_server [OF srv empty len] False by (simp add: b0_def)
      have r: "readFrame (ft w \<noteq> ContMessage) cr = Some (Inr (ft w, fin w, payload), cr\<lparr>br := rest\<rparr>)"
        if "isServer cr = (\<not> isServer cw)" "br cr = ?frame @ rest" for cr rest
        using readFrame_plain_ext [of cr payload b0 rest "ft w \<noteq> ContMessage"] that srv len h3
        by (simp add: h1 h2)
      show ?thesis
        apply (rule exI [where x = ?frame])
        using w r srv by simp
    qed
  next
    case cli: False
    with rnd obtain m where m: "rand cw 0 = Some m" by auto
    show ?thesis
    proof (cases "length payload \<le> 125")
      case True
      let ?frame = "[b0, maskBit OR of_nat (length payload)] @ maskList m @ xorMask m payload"
      have w: "writeFrame payload (w, cw) =
                 (None, (w\<lparr>bw := ?frame\<rparr>, cw\<lparr>rand := (\<lambda>i. rand cw (Suc i))\<rparr>))"
        using writeFrame_client [OF cli empty len m] True by (simp add: b0_def)
      have r: "readFrame (ft w \<noteq> ContMessage) cr = Some (Inr (ft w, fin w, payload), cr\<lparr>br := rest\<rparr>)"
        if "isServer cr = (\<not> isServer cw)" "br cr = ?frame @ rest" for cr rest
        using readFrame_masked_short [of cr payload b0 m rest "ft w \<noteq> ContMessage"] that cli True h3
        by (simp add: h1 h2)
      show ?thesis
        apply (rule exI [where x = ?frame])
        using w r cli by (simp add: length_xorMask)
    next
      case False
      let ?frame = "[b0, maskBit OR 126] @ PutUint16 (of_nat (length payload)) @ maskList m @
                    xorMask m payload"
      have w: "writeFrame payload (w, cw) =
                 (None, (w\<lparr>bw := ?frame\<rparr>, cw\<lparr>rand := (\<lambda>i. rand cw (Suc i))\<rparr>))"
        using writeFrame_client [OF cli empty len m] False by (simp add: b0_def)
      have r: "readFrame (ft w \<noteq> ContMessage) cr = Some (Inr (ft w, fin w, payload), cr\<lparr>br := rest\<rparr>)"
        if "isServer cr = (\<not> isServer cw)" "br cr = ?frame @ rest" for cr rest
        using readFrame_masked_ext [of cr payload b0 m rest "ft w \<noteq> ContMessage"] that cli len h3
        by (simp add: h1 h2)
      show ?thesis
        apply (rule exI [where x = ?frame])
        using w r cli by (simp add: length_xorMask)
    qed
  qed
qed

lemma readLoop_data:
  assumes "readFrame first cr = Some (Inr (t, f, payload), cr')"
    and "t = ContMessage \<or> t = TextMessage \<or> t = BinaryMessage"
  shows "readLoop msg mtyp first cr =
           (if \<not> f then readLoop (msg @ payload) (if t = ContMessage then mtyp else t) False cr'
            else Some (Inr (if t = ContMessage then mtyp else t, msg @ payload), cr'))"
  using assms
  by (subst readLoop.simps) (auto simp add: isControl_def)

lemma write_read_loop:
  assumes "bw w = [] \<or> 1024 \<le> length (bw w)"
    and "\<not> fin w"
    and "ft w = ContMessage \<or> ft w = TextMessage \<or> ft w = BinaryMessage"
    and "isServer cw \<or> (\<forall>i. rand cw i \<noteq> None)"
  shows "\<exists>w' cw' out.
           writeLoop p (w, cw) = (None, (w', cw')) \<and>
           wire cw' @ bw w' = wire cw @ bw w @ out \<and>
           writer cw' = writer cw \<and>
           (\<forall>cr msg mtyp rest.
              isServer cr = (\<not> isServer cw) \<and> br cr = out @ rest \<longrightarrow>
              readLoop msg mtyp (ft w \<noteq> ContMessage) cr =
                Some (Inr (if ft w = ContMessage then mtyp else ft w, msg @ p), cr\<lparr>br := rest\<rparr>))"
  using assms
proof (induction "length p" arbitrary: p w cw rule: less_induct)
  case less
  note buf = less.prems(1) and nofin = less.prems(2) and data = less.prems(3) and rnd = less.prems(4)
  define c1 where "c1 = cw\<lparr>wire := wire cw @ bw w\<rparr>"
  define c2 where "c2 = (if isServer c1 then c1 else c1\<lparr>rand := (\<lambda>i. rand c1 (Suc i))\<rparr>)"
  have rnd1: "isServer c1 \<or> rand c1 0 \<noteq> None"
    using rnd by (auto simp add: c1_def)
  have c2f: "wire c2 = wire cw @ bw w" "writer c2 = writer cw" "isServer c2 = isServer cw"
    "isServer c2 \<or> (\<forall>i. rand c2 i \<noteq> None)"
    using rnd by (auto simp add: c2_def c1_def)
  show ?case
  proof (cases "length p \<le> 1030")
    case True
    define w1 where "w1 = w\<lparr>bw := [], fin := True\<rparr>"
    have nc: "ncopy (int (length p)) (w, cw) = (int (length p), (w1, c1))"
      using ncopy_start [OF buf, of "int (length p)" cw] True by (simp add: w1_def c1_def)
    from frame_roundtrip [of w1 p c1] True data rnd1
    obtain frame where
      wf: "writeFrame p (w1, c1) = (None, (w1\<lparr>bw := frame\<rparr>, c2))"
      and rd: "\<And>cr rest. isServer cr = (\<not> isServer c1) \<Longrightarrow> br cr = frame @ rest \<Longrightarrow>
                readFrame (ft w \<noteq> ContMessage) cr = Some (Inr (ft w, True, p), cr\<lparr>br := rest\<rparr>)"
      by (auto simp add: w1_def c2_def)
    have wl: "writeLoop p (w, cw) = (None, (w1\<lparr>bw := frame, ft := ContMessage\<rparr>, c2))"
      by (subst writeLoop.simps) (simp add: nc wf)
    have "readLoop msg mtyp (ft w \<noteq> ContMessage) cr =
            Some (Inr (if ft w = ContMessage then mtyp else ft w, msg @ p), cr\<lparr>br := rest\<rparr>)"
      if "isServer cr = (\<not> isServer cw)" "br cr = frame @ rest" for cr msg mtyp rest
      using readLoop_data [OF rd [of cr rest] data, of msg mtyp] that by (simp add: c1_def)
    then show ?thesis
      apply (intro exI [where x = "w1\<lparr>bw := frame, ft := ContMessage\<rparr>"] exI [where x = c2]
          exI [where x = frame])
      using wl c2f by simp
  next
    case False
    define w1 where "w1 = w\<lparr>bw := []\<rparr>"
    define p1 where "p1 = take 1030 p"
    define p2 where "p2 = drop 1030 p"
    have lens: "length p1 = 1030" "length p2 < length p" "p2 \<noteq> []" "p1 @ p2 = p"
      using False by (auto simp add: p1_def p2_def)
    have nc: "ncopy (int (length p)) (w, cw) = (1030, (w1, c1))"
      using ncopy_start [OF buf, of "int (length p)" cw] False by (simp add: w1_def c1_def)
    from frame_roundtrip [of w1 p1 c1] lens data rnd1 nofin
    obtain frame where
      wf: "writeFrame p1 (w1, c1) = (None, (w1\<lparr>bw := frame\<rparr>, c2))"
      and fl: "1032 \<le> length frame"
      and rd: "\<And>cr rest. isServer cr = (\<not> isServer c1) \<Longrightarrow> br cr = frame @ rest \<Longrightarrow>
                readFrame (ft w \<noteq> ContMessage) cr = Some (Inr (ft w, False, p1), cr\<lparr>br := rest\<rparr>)"
      by (auto simp add: w1_def c2_def)
    define w2 where "w2 = w1\<lparr>bw := frame, ft := ContMessage\<rparr>"
    have wl: "writeLoop p (w, cw) = writeLoop p2 (w2, c2)"
      using lens by (subst writeLoop.simps) (simp add: nc wf p1_def [symmetric] p2_def [symmetric] w2_def)
    have "\<exists>w' cw' out.
           writeLoop p2 (w2, c2) = (None, (w', cw')) \<and>
           wire cw' @ bw w' = wire c2 @ bw w2 @ out \<and>
           writer cw' = writer c2 \<and>
           (\<forall>cr msg mtyp rest.
              isServer cr = (\<not> isServer c2) \<and> br cr = out @ rest \<longrightarrow>
              readLoop msg mtyp (ft w2 \<noteq> ContMessage) cr =
                Some (Inr (if ft w2 = ContMessage then mtyp else ft w2, msg @ p2), cr\<lparr>br := rest\<rparr>))"
      using lens fl nofin c2f by (intro less.hyps) (simp_all add: w2_def w1_def)
    then obtain w' cw' out where
      ih1: "writeLoop p2 (w2, c2) = (None, (w', cw'))"
      and ih2: "wire cw' @ bw w' = wire c2 @ bw w2 @ out"
      and ih3: "writer cw' = writer c2"
      and ih4: "\<And>cr msg mtyp rest. isServer cr = (\<not> isServer c2) \<Longrightarrow> br cr = out @ rest \<Longrightarrow>
              readLoop msg mtyp False cr = Some (Inr (mtyp, msg @ p2), cr\<lparr>br := rest\<rparr>)"
      by (auto simp add: w2_def)
    have "readLoop msg mtyp (ft w \<noteq> ContMessage) cr =
            Some (Inr (if ft w = ContMessage then mtyp else ft w, msg @ p), cr\<lparr>br := rest\<rparr>)"
      if a: "isServer cr = (\<not> isServer cw)" "br cr = (frame @ out) @ rest" for cr msg mtyp rest
    proof -
      have "readFrame (ft w \<noteq> ContMessage) cr = Some (Inr (ft w, False, p1), cr\<lparr>br := out @ rest\<rparr>)"
        using rd [of cr "out @ rest"] a by (simp add: c1_def)
      from readLoop_data [OF this data, of msg mtyp]
      have "readLoop msg mtyp (ft w \<noteq> ContMessage) cr =
              readLoop (msg @ p1) (if ft w = ContMessage then mtyp else ft w) False (cr\<lparr>br := out @ rest\<rparr>)"
        by simp
      also have "\<dots> = Some (Inr (if ft w = ContMessage then mtyp else ft w, (msg @ p1) @ p2),
                             cr\<lparr>br := out @ rest\<rparr>\<lparr>br := rest\<rparr>)"
        using a c2f by (intro ih4) simp_all
      finally show ?thesis using lens by simp
    qed
    then show ?thesis
      apply (intro exI [where x = w'] exI [where x = cw'] exI [where x = "frame @ out"])
      using wl ih1 ih2 ih3 c2f by (simp add: w2_def)
  qed
qed

section \<open>Protocol errors\<close>

lemma length_digits: "n < 100 \<Longrightarrow> length (digits n) \<le> 2"
  by (subst digits.simps, subst digits.simps) auto

lemma opcode_range: "0 \<le> uint (b AND 0xf :: byte) \<and> uint (b AND 0xf :: byte) \<le> 15"
proof -
  have "uint (b AND 0xf) = uint b AND 15" by (simp add: uint_and)
  moreover have "uint b AND 15 \<le> 15" by (rule AND_upper2) simp
  ultimately show ?thesis by simp
qed

lemma length_Join_frameErrors:
  assumes "0 \<le> t" and "t \<le> 15"
  shows "length (Join (frameErrors b0 t len final first) '','') \<le> 57"
proof -
  have "length (formatInt t) \<le> 2"
    using assms length_digits [of "nat t"] by (simp add: formatInt_def)
  then show ?thesis
    by (simp add: frameErrors_def Let_def)
qed

lemma Conn_writer_False: "\<not> writer c \<Longrightarrow> c\<lparr>writer := False\<rparr> = c"
  by (cases c) simp

lemma WriteMessage_close_frame:
  assumes free: "\<not> writer c" and len: "length data \<le> 125"
  shows "isServer c \<Longrightarrow>
           WriteMessage CloseMessage data c =
             (None, c\<lparr>wire := wire c @ [0x88, of_nat (length data)] @ data\<rparr>)"
    and "\<not> isServer c \<Longrightarrow> rand c 0 = Some m \<Longrightarrow>
           WriteMessage CloseMessage data c =
             (None, c\<lparr>rand := (\<lambda>i. rand c (Suc i)),
                      wire := wire c @ [0x88, maskBit OR of_nat (length data)] @ maskList m @
                              xorMask m data\<rparr>)"
proof -
  define w0 where "w0 = \<lparr>bw = [], fin = False, mt = CloseMessage, ft = CloseMessage\<rparr>"
  define c0 where "c0 = c\<lparr>writer := True\<rparr>"
  have nc: "ncopy (int (length data)) (w0, c0) = (int (length data), (w0\<lparr>fin := True\<rparr>, c0))"
    using ncopy_start [of w0 "int (length data)" c0] len by (simp add: w0_def)
  {
    assume srv: "isServer c"
    have wf: "writeFrame data (w0\<lparr>fin := True\<rparr>, c0) =
               (None, (w0\<lparr>fin := True, bw := [0x88, of_nat (length data)] @ data\<rparr>, c0))"
      using writeFrame_server [of c0 "w0\<lparr>fin := True\<rparr>" data] srv len
      by (simp add: w0_def c0_def)
    have "writeLoop data (w0, c0) =
            (None, (w0\<lparr>fin := True, bw := [0x88, of_nat (length data)] @ data, ft := ContMessage\<rparr>, c0))"
      by (subst writeLoop.simps) (simp add: nc wf)
    then show "WriteMessage CloseMessage data c =
             (None, c\<lparr>wire := wire c @ [0x88, of_nat (length data)] @ data\<rparr>)"
      using free Conn_writer_False [OF free]
      by (simp add: WriteMessage_def NextWriter_def Write_def msgWriter_Close_def Flush_def
          w0_def c0_def)
  }
  {
    assume cli: "\<not> isServer c" and m: "rand c 0 = Some m"
    have wf: "writeFrame data (w0\<lparr>fin := True\<rparr>, c0) =
               (None, (w0\<lparr>fin := True, bw := [0x88, maskBit OR of_nat (length data)] @ maskList m @
                              xorMask m data\<rparr>, c0\<lparr>rand := (\<lambda>i. rand c (Suc i))\<rparr>))"
      using writeFrame_client [of c0 "w0\<lparr>fin := True\<rparr>" data m] cli len m
      by (simp add: w0_def c0_def)
    have "writeLoop data (w0, c0) =
            (None, (w0\<lparr>fin := True, bw := [0x88, maskBit OR of_nat (length data)] @ maskList m @
                              xorMask m data, ft := ContMessage\<rparr>, c0\<lparr>rand := (\<lambda>i. rand c (Suc i))\<rparr>))"
      by (subst writeLoop.simps) (simp add: nc wf)
    then show "WriteMessage CloseMessage data c =
             (None, c\<lparr>rand := (\<lambda>i. rand c (Suc i)),
                      wire := wire c @ [0x88, maskBit OR of_nat (length data)] @ maskList m @
                              xorMask m data\<rparr>)"
      using free Conn_writer_False [OF free]
      by (simp add: WriteMessage_def NextWriter_def Write_def msgWriter_Close_def Flush_def
          w0_def c0_def)
  }
qed

lemma frameErrors_members:
  "(''RSV bits set'' \<in> set (frameErrors b0 t len final first)) =
     (b0 AND rsv1Bit \<noteq> 0 \<or> b0 AND rsv2Bit \<noteq> 0 \<or> b0 AND rsv3Bit \<noteq> 0)"
  "(''len > 125 for control'' \<in> set (frameErrors b0 t len final first)) =
     ((t = CloseMessage \<or> t = PingMessage \<or> t = PongMessage) \<and> len > 125)"
  "(''FIN not set on control'' \<in> set (frameErrors b0 t len final first)) =
     ((t = CloseMessage \<or> t = PingMessage \<or> t = PongMessage) \<and> \<not> final)"
  "(''data before FIN'' \<in> set (frameErrors b0 t len final first)) =
     ((t = TextMessage \<or> t = BinaryMessage) \<and> \<not> first)"
  "(''continuation after FIN'' \<in> set (frameErrors b0 t len final first)) =
     (t = ContMessage \<and> first)"
  "(''bad opcode '' @ formatInt t \<in> set (frameErrors b0 t len final first)) =
     (t \<noteq> ContMessage \<and> t \<noteq> TextMessage \<and> t \<noteq> BinaryMessage \<and>
      t \<noteq> CloseMessage \<and> t \<noteq> PingMessage \<and> t \<noteq> PongMessage)"
  by (simp_all add: frameErrors_def Let_def)

lemma isControl_iff: "isControl t = (t = CloseMessage \<or> t = PingMessage \<or> t = PongMessage)"
  by (auto simp add: isControl_def)

section \<open>The end of the stream\<close>

lemma readPayload_stuck:
  assumes "1024 < n" and "br c = []"
  shows "readPayload n buf c = None"
proof -
  have "\<not> (1024 < n \<and> br c = [])" if r: "readPayload n buf c = Some y" for y
  proof (rule readPayload.raw_induct [where P = "\<lambda>len buf c y. \<not> (1024 < len \<and> br c = [])", OF _ r])
    fix f :: "int \<Rightarrow> byte list \<Rightarrow> Conn \<Rightarrow> ((error + byte list) \<times> Conn) option"
    fix len buf c y
    assume IH: "\<And>len buf c y. f len buf c = Some y \<Longrightarrow> \<not> (1024 < len \<and> br c = [])"
      and step: "(if 0 < len
                 then case read len c of
                        (Inl err, c') \<Rightarrow> Some (Inl err, c')
                      | (Inr p, c') \<Rightarrow> f (len - int (length p)) (buf @ p) c'
                 else Some (Inr buf, c)) = Some y"
    show "\<not> (1024 < len \<and> br c = [])"
    proof
      assume a: "1024 < len \<and> br c = []"
      then have "read len c = (Inr [], c)"
        by (simp add: read_def Peek_def)
      with a step have "f len buf c = Some y" by simp
      from IH [OF this] a show False by simp
    qed
  qed
  with assms show ?thesis by (cases "readPayload n buf c") auto
qed

lemma eof_in_header:
  "length (br c) < 2 \<Longrightarrow> readLoop msg mtyp first c = Some (Inl (CloseError 1006 ''unexpected EOF''), c)"
  by (subst readLoop.simps) (simp add: readFrame_def read_eof errUnexpectedEOF_def)

section \<open>The claims\<close>

text \<open>
  C4. A close frame with a valid code and a reason, received by \<^verbatim>\<open>ReadMessage\<close> at any
  point of its loop, is answered by a close frame with the same code and reason, written
  to the connection (unmasked by a server, masked with a fresh key by a client whose
  random source works), and \<^verbatim>\<open>ReadMessage\<close> then returns the \<open>CloseError\<close> with that
  code and text: an error, not a message.
\<close>

theorem close_echo:
  assumes valid: "isValidReceivedCloseCode code"
    and len: "length reason \<le> 123"
    and payload_def: "payload = PutUint16 (of_int code) @ bytes reason"
  shows "(isServer c \<and>
           br c = [0x88, 0x80 OR of_nat (2 + length reason)] @ maskList k @
                  xorMask k payload @ rest \<longrightarrow>
          readLoop msg mtyp first c =
            Some (Inl (CloseError code reason),
                  c\<lparr>br := rest,
                    wire := wire c @ [0x88, of_nat (2 + length reason)] @ payload\<rparr>)) \<and>
         (\<not> isServer c \<and> rand c 0 = Some m \<and>
           br c = [0x88, of_nat (2 + length reason)] @ payload @ rest \<longrightarrow>
          readLoop msg mtyp first c =
            Some (Inl (CloseError code reason),
                  c\<lparr>br := rest, rand := (\<lambda>i. rand c (Suc i)),
                    wire := wire c @ [0x88, 0x80 OR of_nat (2 + length reason)] @ maskList m @
                            xorMask m payload\<rparr>))"
proof -
  have range: "0 \<le> code" "code < 65536"
    using valid
    by (auto simp add: isValidReceivedCloseCode_def validReceivedCloseCodes_def split: if_splits)
  have not1005: "code \<noteq> 1005"
    using valid by (auto simp add: isValidReceivedCloseCode_def validReceivedCloseCodes_def)
  have plen: "length payload = 2 + length reason"
    by (simp add: payload_def length_PutUint16 length_bytes)
  have hcode: "uint (Uint16 payload) = code"
    using range by (simp add: payload_def Uint16_PutUint16 uint_code)
  have htext: "str (drop 2 payload) = reason"
    by (simp add: payload_def length_PutUint16 str_bytes)
  have fmt: "FormatCloseMessage code reason = payload"
    using not1005 by (simp add: FormatCloseMessage_def payload_def)
  have ctl: "handleControl CloseMessage payload c' =
               (Some (CloseError code reason), snd (WriteControl CloseMessage payload c'))" for c'
    using valid by (simp add: handleControl_def plen hcode htext handleClose_def fmt)
  have fe: "frameErrors 0x88 (uint (0x88 AND 0xf :: byte)) (int (length payload)) ((0x88 :: byte) AND finBit \<noteq> 0) first = []"
    using len by (simp add: frameErrors_def plen)
  show ?thesis
  proof (intro conjI impI)
    assume a: "isServer c \<and> br c = [0x88, 0x80 OR of_nat (2 + length reason)] @ maskList k @
                  xorMask k payload @ rest"
    have fr: "readFrame first c = Some (Inr (uint (0x88 AND 0xf :: byte), (0x88 :: byte) AND finBit \<noteq> 0, payload), c\<lparr>br := rest\<rparr>)"
      using a len fe
      by (intro readFrame_masked_short [where k = k]) (simp_all add: plen)
    show "readLoop msg mtyp first c =
            Some (Inl (CloseError code reason),
                  c\<lparr>br := rest,
                    wire := wire c @ [0x88, of_nat (2 + length reason)] @ payload\<rparr>)"
      apply (subst readLoop.simps)
      using a
      apply (simp add: fr isControl_def ctl WriteControl_def plen Let_def del: append.simps)
      done
  next
    assume a: "\<not> isServer c \<and> rand c 0 = Some m \<and>
           br c = [0x88, of_nat (2 + length reason)] @ payload @ rest"
    have fr: "readFrame first c = Some (Inr (uint (0x88 AND 0xf :: byte), (0x88 :: byte) AND finBit \<noteq> 0, payload), c\<lparr>br := rest\<rparr>)"
      using a len fe
      by (intro readFrame_plain_short) (simp_all add: plen)
    show "readLoop msg mtyp first c =
            Some (Inl (CloseError code reason),
                  c\<lparr>br := rest, rand := (\<lambda>i. rand c (Suc i)),
                    wire := wire c @ [0x88, 0x80 OR of_nat (2 + length reason)] @ maskList m @
                            xorMask m payload\<rparr>)"
      apply (subst readLoop.simps)
      using a
      apply (simp add: fr isControl_def ctl WriteControl_def generateMask_def plen Let_def or.commute
               del: append.simps)
      done
  qed
qed

theorem close_echo_witness:
  "ReadMessage (newConn ([0x88, 0x85] @ maskList (1, 2, 3, 4) @
                         xorMask (1, 2, 3, 4) (PutUint16 1000 @ bytes ''bye'')) (\<lambda>i. None) True) =
     Some (Inl (CloseError 1000 ''bye''),
           (newConn ([0x88, 0x85] @ maskList (1, 2, 3, 4) @
                     xorMask (1, 2, 3, 4) (PutUint16 1000 @ bytes ''bye'')) (\<lambda>i. None) True)
             \<lparr>br := [], wire := [0x88, 0x05] @ PutUint16 1000 @ bytes ''bye''\<rparr>)"
  using close_echo [where code = 1000 and reason = "''bye''"
      and payload = "PutUint16 1000 @ bytes ''bye''" and k = "(1, 2, 3, 4)" and rest = "[]"
      and c = "newConn ([0x88, 0x85] @ maskList (1, 2, 3, 4) @
                         xorMask (1, 2, 3, 4) (PutUint16 1000 @ bytes ''bye'')) (\<lambda>i. None) True"
      and msg = "[]" and mtyp = noFrame and first = True]
  by (simp add: ReadMessage_def newConn_def isValidReceivedCloseCode_def validReceivedCloseCodes_def)

text \<open>
  C5. A close code is accepted on receipt exactly when it is one of the declared codes
  other than 1005, 1006 and 1015, or lies between 3000 and 4999. A close payload of at
  least two bytes that starts with the code gives the \<open>CloseError\<close> with that code when
  the code is accepted, and the protocol error "bad close code" otherwise.
\<close>

theorem close_code_accepted:
  "(isValidReceivedCloseCode code \<longleftrightarrow>
      (code \<in> set closeCodes \<and> code \<notin> {1005, 1006, 1015}) \<or> (3000 \<le> code \<and> code \<le> 4999)) \<and>
   (0 \<le> code \<and> code < 65536 \<longrightarrow>
      fst (handleControl CloseMessage (PutUint16 (of_int code) @ reason) c) =
        (if isValidReceivedCloseCode code then Some (CloseError code (str reason))
         else Some (ErrorString ''websocket: bad close code'')))"
proof -
  have "uint (Uint16 (PutUint16 (of_int code) @ reason)) = code" if "0 \<le> code" "code < 65536"
    using that by (simp add: Uint16_PutUint16 uint_code)
  then show ?thesis
    by (auto simp add: isValidReceivedCloseCode_def validReceivedCloseCodes_def closeCodes_def
        handleControl_def length_PutUint16 Let_def handleProtocolError_def)
qed

theorem close_code_accepted_witness:
  "fst (handleControl CloseMessage (PutUint16 1005 @ bytes ''x'') (newConn [] (\<lambda>i. None) True)) =
     Some (ErrorString ''websocket: bad close code'') \<and>
   fst (handleControl CloseMessage (PutUint16 3000 @ bytes ''x'') (newConn [] (\<lambda>i. None) True)) =
     Some (CloseError 3000 ''x'')"
  using close_code_accepted [of 1005 "bytes ''x''" "newConn [] (\<lambda>i. None) True"]
    close_code_accepted [of 3000 "bytes ''x''" "newConn [] (\<lambda>i. None) True"]
  by (simp add: closeCodes_def str_bytes)

text \<open>
  C10. A close frame whose payload is a single byte is no protocol error: at any point of
  the loop \<^verbatim>\<open>ReadMessage\<close> answers it with a close frame that has an empty payload and
  returns the \<open>CloseError\<close> with code 1005 and the empty text; the byte is dropped.
  A client masks the answer, which needs a working random source.
\<close>

theorem one_byte_close:
  "(isServer c \<and> br c = [0x88, 0x81] @ maskList k @ [x] @ rest \<longrightarrow>
      readLoop msg mtyp first c =
        Some (Inl (CloseError CloseNoStatusReceived []),
              c\<lparr>br := rest, wire := wire c @ [0x88, 0x00]\<rparr>)) \<and>
   (\<not> isServer c \<and> rand c 0 = Some m \<and> br c = [0x88, 0x01] @ [x] @ rest \<longrightarrow>
      readLoop msg mtyp first c =
        Some (Inl (CloseError CloseNoStatusReceived []),
              c\<lparr>br := rest, rand := (\<lambda>i. rand c (Suc i)),
                wire := wire c @ [0x88, 0x80] @ maskList m\<rparr>))"
proof (intro conjI impI)
  assume a: "isServer c \<and> br c = [0x88, 0x81] @ maskList k @ [x] @ rest"
  obtain y where y: "xorMask k [y] = [x]"
    using xorMask_xorMask [of k "[x]"] length_xorMask [of k "[x]"]
    by (metis length_0_conv length_Suc_conv)
  have fr: "readFrame first c =
      Some (Inr (uint (0x88 AND 0xf :: byte), (0x88 :: byte) AND finBit \<noteq> 0, [y]), c\<lparr>br := rest\<rparr>)"
    using a y
    by (intro readFrame_masked_short [where k = k]) (simp_all add: frameErrors_def)
  show "readLoop msg mtyp first c =
        Some (Inl (CloseError CloseNoStatusReceived []),
              c\<lparr>br := rest, wire := wire c @ [0x88, 0x00]\<rparr>)"
    apply (subst readLoop.simps)
    using a
    apply (simp add: fr isControl_def handleControl_def handleClose_def FormatCloseMessage_def
        WriteControl_def)
    done
next
  assume a: "\<not> isServer c \<and> rand c 0 = Some m \<and> br c = [0x88, 0x01] @ [x] @ rest"
  have fr: "readFrame first c =
      Some (Inr (uint (0x88 AND 0xf :: byte), (0x88 :: byte) AND finBit \<noteq> 0, [x]), c\<lparr>br := rest\<rparr>)"
    using a
    by (intro readFrame_plain_short) (simp_all add: frameErrors_def)
  show "readLoop msg mtyp first c =
        Some (Inl (CloseError CloseNoStatusReceived []),
              c\<lparr>br := rest, rand := (\<lambda>i. rand c (Suc i)),
                wire := wire c @ [0x88, 0x80] @ maskList m\<rparr>)"
    apply (subst readLoop.simps)
    using a
    apply (simp add: fr isControl_def handleControl_def handleClose_def FormatCloseMessage_def
        WriteControl_def generateMask_def xorMask_def)
    done
qed

theorem one_byte_close_witness:
  "ReadMessage (newConn [0x88, 0x01, 0x2A] (\<lambda>i. Some (1, 2, 3, 4)) False) =
     Some (Inl (CloseError CloseNoStatusReceived []),
           (newConn [0x88, 0x01, 0x2A] (\<lambda>i. Some (1, 2, 3, 4)) False)
             \<lparr>br := [], rand := (\<lambda>i. Some (1, 2, 3, 4)), wire := [0x88, 0x80, 1, 2, 3, 4]\<rparr>)"
  using one_byte_close [where c = "newConn [0x88, 0x01, 0x2A] (\<lambda>i. Some (1, 2, 3, 4)) False"
      and m = "(1, 2, 3, 4)" and x = "0x2A" and rest = "[]" and msg = "[]" and mtyp = noFrame
      and first = True]
  by (simp add: ReadMessage_def newConn_def)

text \<open>
  C9, as amended. For a code that has a label in \<^verbatim>\<open>CloseError.Error\<close> (1000 to 1003, 1005
  to 1011 and 1015) the error text is "websocket: close", the code in decimal and the
  label in parentheses, followed by a colon and the text only when the text is not
  empty.
\<close>

theorem Error_format:
  "(code, label) \<in> set [(1000, ''normal''), (1001, ''going away''), (1002, ''protocol error''),
      (1003, ''unsupported data''), (1005, ''no status''), (1006, ''abnormal closure''),
      (1007, ''invalid payload data''), (1008, ''policy violation''), (1009, ''message too big''),
      (1010, ''manatory extension missing''), (1011, ''internal server error''),
      (1015, ''TLS handshake error'')] \<Longrightarrow>
   Error code text =
     ''websocket: close '' @ formatInt code @ '' ('' @ label @ '')'' @
     (if text = [] then [] else '': '' @ text)"
  apply (simp only: list.set insert_iff empty_iff prod.inject)
  apply (elim disjE conjE FalseE)
  apply (simp_all add: Error_def closeLabel_def)
  done

theorem Error_format_witness:
  "Error 1002 ''bad opcode 3'' = ''websocket: close 1002 (protocol error): bad opcode 3''"
  using Error_format [of 1002 "''protocol error''" "''bad opcode 3''"]
  by (simp add: formatInt_def digits.simps)

text \<open>
  The claim as stated asks for the colon and the text in every case; with an empty text
  the source appends neither.
\<close>

theorem Error_empty_text_counterexample:
  "Error CloseNormalClosure [] \<noteq> ''websocket: close 1000 (normal): ''"
  by (simp add: Error_def closeLabel_def formatInt_def digits.simps)

text \<open>
  C2. \<^verbatim>\<open>Dial\<close> does not look at the response: a response with status 200 and no
  header at all, which \<open>validateResponse\<close> rejects, gives a client connection, no error
  and an open socket.
\<close>

theorem Dial_accepts_any_response:
  "\<not> validateResponse \<lparr>StatusCode = 200, Header = (\<lambda>k. [])\<rparr> \<and>
   Dial \<lparr>scheme = Some ''ws'', challengeKey = Some ''dGhlIHNhbXBsZSBub25jZQ=='', dialOk = True,
         writeOk = True, response = Some \<lparr>StatusCode = 200, Header = (\<lambda>k. [])\<rparr>,
         stream = [], masks = (\<lambda>i. None)\<rparr> =
     (Inr (newConn [] (\<lambda>i. None) False), False)"
  by (simp add: validateResponse_def Dial_def)

text \<open>
  C6. Every frame that \<^verbatim>\<open>writeFrame\<close> emits carries the shortest length encoding that
  holds its payload length: the bytes it adds to the output are the two header bytes,
  the extended length, the mask key of a client and the payload, where a length of at
  most 125 is the 7-bit field itself with no extension, a length from 126 to 65535 is
  the field 126 and two bytes that hold the length, and a larger length is the field 127
  and eight bytes that hold the length.
\<close>

theorem header_minimal:
  assumes "writeFrame payload s = (None, s')"
  shows "\<exists>b0 b1 ext key body.
          wire (snd s') @ bw (fst s') = wire (snd s) @ bw (fst s) @ [b0, b1] @ ext @ key @ body \<and>
          length key = (if isServer (snd s) then 0 else 4) \<and> length body = length payload \<and>
          (length payload \<le> 125 \<longrightarrow> unat (b1 AND 0x7f) = length payload \<and> ext = []) \<and>
          (126 \<le> length payload \<and> length payload \<le> 65535 \<longrightarrow>
             b1 AND 0x7f = 126 \<and> (\<exists>v :: 16 word. ext = PutUint16 v \<and> unat v = length payload)) \<and>
          (65536 \<le> length payload \<and> length payload < 2 ^ 63 \<longrightarrow>
             b1 AND 0x7f = 127 \<and> (\<exists>v :: 64 word. ext = PutUint64 v \<and> unat v = length payload))"
proof -
  from writeFrame_stream [OF assms] obtain b0 b1 key body where
    k: "length key = (if isServer (snd s) then 0 else 4)" and b: "length body = length payload"
    and out: "wire (snd s') @ bw (fst s') =
            wire (snd s) @ bw (fst s) @ [b0, b1] @
            (if length payload \<ge> 65536 then PutUint64 (of_nat (length payload))
             else if length payload > 125 then PutUint16 (of_nat (length payload)) else []) @
            key @ body"
    and b1: "b1 AND 0x7f =
            (if length payload \<ge> 65536 then 127 else if length payload > 125 then 126
             else of_nat (length payload) AND 0x7f)"
    by blast
  have small: "unat (b1 AND 0x7f) = length payload" if "length payload \<le> 125"
    using that b1 by (simp add: low7_of_nat unat_of_nat take_bit_nat_eq_self)
  have big: "unat (of_nat (length payload) :: 64 word) = length payload" if "length payload < 2 ^ 63"
  proof -
    have "length payload < 2 ^ 64" using that by (simp add: order_less_trans [OF that])
    then show ?thesis by (rule unat_of_nat64)
  qed
  show ?thesis
    apply (rule exI [where x = b0])
    apply (rule exI [where x = b1])
    apply (rule exI [where x = "if length payload \<ge> 65536 then PutUint64 (of_nat (length payload))
             else if length payload > 125 then PutUint16 (of_nat (length payload)) else []"])
    apply (rule exI [where x = key])
    apply (rule exI [where x = body])
    using k b out b1 small big unat_of_nat16 [of "length payload"]
    apply (auto)
    done
qed

theorem header_minimal_witness:
  "fst (writeFrame [1, 2, 3] 
         (\<lparr>bw = [], fin = True, mt = TextMessage, ft = TextMessage\<rparr>, newConn [] (\<lambda>i. None) True)) = None \<and>
   (\<exists>b0 b1 body.
      bw (fst (snd (writeFrame [1, 2, 3] 
         (\<lparr>bw = [], fin = True, mt = TextMessage, ft = TextMessage\<rparr>, newConn [] (\<lambda>i. None) True)))) = [b0, b1] @ body \<and>
      unat (b1 AND 0x7f) = 3 \<and> length body = 3)"
proof -
  let ?s = "(\<lparr>bw = [], fin = True, mt = TextMessage, ft = TextMessage\<rparr>, newConn [] (\<lambda>i. None) True)"
  have w: "writeFrame [1, 2, 3] ?s = (None, snd (writeFrame [1, 2, 3] ?s))"
    by (simp add: writeFrame_def newConn_def WriteByte_def Available_def bwSize_def bwWrite.simps)
  have e: "wire (snd (snd (writeFrame [1, 2, 3] ?s))) = []"
    by (simp add: writeFrame_def newConn_def WriteByte_def Available_def bwSize_def bwWrite.simps)
  have f: "fst (writeFrame [1, 2, 3] ?s) = None"
    by (simp add: writeFrame_def newConn_def WriteByte_def Available_def bwSize_def bwWrite.simps)
  from header_minimal [OF w] e f show ?thesis
    by (auto simp add: newConn_def numeral_3_eq_3)
qed

text \<open>
  C1. Round trip. \<^verbatim>\<open>WriteMessage\<close> of a text or binary message with any payload, on a
  connection that has no message writer open and, for a client, a random source that
  does not fail, returns no error; and \<^verbatim>\<open>ReadMessage\<close> on a connection of the other
  role whose stream starts with the bytes written returns that message type and that
  payload, and leaves the rest of the stream. The writer may be the client or the
  server, and the payload may have any length.
\<close>

theorem roundtrip:
  assumes dat: "t = TextMessage \<or> t = BinaryMessage"
    and free: "\<not> writer cw"
    and rnd: "isServer cw \<or> (\<forall>i. rand cw i \<noteq> None)"
  shows "\<exists>out cw'.
           WriteMessage t p cw = (None, cw') \<and> wire cw' = wire cw @ out \<and>
           (\<forall>cr rest.
              isServer cr = (\<not> isServer cw) \<and> br cr = out @ rest \<longrightarrow>
              ReadMessage cr = Some (Inr (t, p), cr\<lparr>br := rest\<rparr>))"
proof -
  define w0 where "w0 = \<lparr>bw = [], fin = False, mt = t, ft = t\<rparr>"
  define c0 where "c0 = cw\<lparr>writer := True\<rparr>"
  have "\<exists>w' cw' out.
           writeLoop p (w0, c0) = (None, (w', cw')) \<and>
           wire cw' @ bw w' = wire c0 @ bw w0 @ out \<and>
           writer cw' = writer c0 \<and>
           (\<forall>cr msg mtyp rest.
              isServer cr = (\<not> isServer c0) \<and> br cr = out @ rest \<longrightarrow>
              readLoop msg mtyp (ft w0 \<noteq> ContMessage) cr =
                Some (Inr (if ft w0 = ContMessage then mtyp else ft w0, msg @ p), cr\<lparr>br := rest\<rparr>))"
    using dat rnd by (intro write_read_loop) (auto simp add: w0_def c0_def)
  then obtain w' cw' out where
    wl: "writeLoop p (w0, c0) = (None, (w', cw'))"
    and st: "wire cw' @ bw w' = wire cw @ out"
    and rd: "\<And>cr msg mtyp rest. isServer cr = (\<not> isServer cw) \<Longrightarrow> br cr = out @ rest \<Longrightarrow>
              readLoop msg mtyp True cr = Some (Inr (t, msg @ p), cr\<lparr>br := rest\<rparr>)"
    using dat by (auto simp add: w0_def c0_def)
  have wm: "WriteMessage t p cw = (None, cw'\<lparr>writer := False, wire := wire cw' @ bw w'\<rparr>)"
    using free wl
    by (simp add: WriteMessage_def NextWriter_def Write_def msgWriter_Close_def Flush_def
        w0_def c0_def)
  show ?thesis
    apply (intro exI [where x = out] exI [where x = "cw'\<lparr>writer := False, wire := wire cw' @ bw w'\<rparr>"])
    using wm st rd by (simp add: ReadMessage_def)
qed

theorem roundtrip_witness:
  "ReadMessage
     (newConn (wire (snd (WriteMessage TextMessage (bytes ''hello'')
                            (newConn [] (\<lambda>i. Some (1, 2, 3, 4)) False))))
        (\<lambda>i. None) True) =
   Some (Inr (TextMessage, bytes ''hello''),
         (newConn (wire (snd (WriteMessage TextMessage (bytes ''hello'')
                            (newConn [] (\<lambda>i. Some (1, 2, 3, 4)) False))))
        (\<lambda>i. None) True)\<lparr>br := []\<rparr>)"
proof -
  let ?cw = "newConn [] (\<lambda>i. Some (1, 2, 3, 4)) False"
  from roundtrip [of TextMessage ?cw "bytes ''hello''"]
  obtain out cw' where
    w: "WriteMessage TextMessage (bytes ''hello'') ?cw = (None, cw')" and o: "wire cw' = out"
    and r: "\<And>cr rest. isServer cr = True \<Longrightarrow> br cr = out @ rest \<Longrightarrow>
              ReadMessage cr = Some (Inr (TextMessage, bytes ''hello''), cr\<lparr>br := rest\<rparr>)"
    by (auto simp add: newConn_def)
  have e: "wire (snd (WriteMessage TextMessage (bytes ''hello'') ?cw)) = out"
    by (simp add: w o)
  show ?thesis
    unfolding e using r [of "newConn out (\<lambda>i. None) True" "[]"]
    by (simp add: newConn_def)
qed

text \<open>
  C3, as amended. Take a frame whose MASK bit agrees with the role of the connection,
  read at any point of the loop of \<^verbatim>\<open>ReadMessage\<close> on a connection that has no message
  writer open (and whose random source works, for a client). When one or more of the
  other rules fail for it, \<^verbatim>\<open>ReadMessage\<close> writes one close frame with code 1002 whose
  reason is the list of all the failing conditions of that frame, joined by commas, and
  returns the protocol error with that text. The conditions listed are exactly the ones
  that fail: RSV bits set, a control frame longer than 125 bytes, a control frame without
  FIN, a text or binary frame inside a fragmented message, a continuation frame outside
  one, an unknown opcode.
\<close>

theorem protocol_error_report:
  assumes inp: "br c = b0 # b1 # rest"
    and msk: "(b1 AND maskBit \<noteq> 0) = isServer c"
    and errs: "errors = frameErrors b0 (uint (b0 AND 0xf)) (uint (b1 AND 0x7f)) (b0 AND finBit \<noteq> 0) first"
    and bad: "errors \<noteq> []"
    and free: "\<not> writer c"
    and rnd: "isServer c \<or> rand c 0 = Some m"
  shows "readLoop msg mtyp first c =
           Some (Inl (ErrorString (''websocket: '' @ Join errors '','')),
                 if isServer c then
                   c\<lparr>br := rest,
                     wire := wire c @ [0x88, of_nat (2 + length (Join errors '',''))] @
                             PutUint16 1002 @ bytes (Join errors '','')\<rparr>
                 else
                   c\<lparr>br := rest, rand := (\<lambda>i. rand c (Suc i)),
                     wire := wire c @ [0x88, maskBit OR of_nat (2 + length (Join errors '',''))] @
                             maskList m @ xorMask m (PutUint16 1002 @ bytes (Join errors '',''))\<rparr>) \<and>
         (''RSV bits set'' \<in> set errors \<longleftrightarrow>
            b0 AND rsv1Bit \<noteq> 0 \<or> b0 AND rsv2Bit \<noteq> 0 \<or> b0 AND rsv3Bit \<noteq> 0) \<and>
         (''len > 125 for control'' \<in> set errors \<longleftrightarrow>
            isControl (uint (b0 AND 0xf)) \<and> uint (b1 AND 0x7f) > 125) \<and>
         (''FIN not set on control'' \<in> set errors \<longleftrightarrow>
            isControl (uint (b0 AND 0xf)) \<and> b0 AND finBit = 0) \<and>
         (''data before FIN'' \<in> set errors \<longleftrightarrow>
            (uint (b0 AND 0xf) = TextMessage \<or> uint (b0 AND 0xf) = BinaryMessage) \<and> \<not> first) \<and>
         (''continuation after FIN'' \<in> set errors \<longleftrightarrow>
            uint (b0 AND 0xf) = ContMessage \<and> first) \<and>
         (''bad opcode '' @ formatInt (uint (b0 AND 0xf)) \<in> set errors \<longleftrightarrow>
            uint (b0 AND 0xf) \<notin> {ContMessage, TextMessage, BinaryMessage, CloseMessage, PingMessage,
                                  PongMessage})"
proof -
  define reason where "reason = Join errors '',''"
  define data where "data = PutUint16 1002 @ bytes reason"
  have rl: "length reason \<le> 57"
    unfolding reason_def errs using opcode_range [where b = b0] by (intro length_Join_frameErrors) simp_all
  have dl: "length data = 2 + length reason" "length data \<le> 125"
    using rl by (simp_all add: data_def length_PutUint16 length_bytes)
  have fm: "FormatCloseMessage CloseProtocolError reason = data"
    by (simp add: FormatCloseMessage_def data_def)
  define c1 where "c1 = c\<lparr>br := rest\<rparr>"
  have c1f: "\<not> writer c1" "isServer c1 = isServer c" "rand c1 = rand c" "wire c1 = wire c"
    using free by (simp_all add: c1_def)
  have rf: "readFrame first c = (case handleProtocolError reason c1 of (err, c2) \<Rightarrow> Some (Inl err, c2))"
    using inp msk bad
    by (simp add: readFrame_def read_ok errs [symmetric] reason_def c1_def)
  have hp: "handleProtocolError reason c1 =
      (ErrorString (''websocket: '' @ reason),
       if isServer c then c1\<lparr>wire := wire c @ [0x88, of_nat (2 + length reason)] @ data\<rparr>
       else c1\<lparr>rand := (\<lambda>i. rand c (Suc i)),
               wire := wire c @ [0x88, maskBit OR of_nat (2 + length reason)] @ maskList m @
                       xorMask m data\<rparr>)"
  proof (cases "isServer c")
    case True
    then show ?thesis
      using WriteMessage_close_frame(1) [OF c1f(1) dl(2)] c1f dl
      by (simp add: handleProtocolError_def fm Let_def)
  next
    case False
    with rnd have "rand c1 0 = Some m" by (simp add: c1f)
    with False show ?thesis
      using WriteMessage_close_frame(2) [OF c1f(1) dl(2), where m = m] c1f dl
      by (simp add: handleProtocolError_def fm Let_def)
  qed
  have main: "readLoop msg mtyp first c =
      Some (Inl (ErrorString (''websocket: '' @ reason)),
       if isServer c then c1\<lparr>wire := wire c @ [0x88, of_nat (2 + length reason)] @ data\<rparr>
       else c1\<lparr>rand := (\<lambda>i. rand c (Suc i)),
               wire := wire c @ [0x88, maskBit OR of_nat (2 + length reason)] @ maskList m @
                       xorMask m data\<rparr>)"
    by (subst readLoop.simps) (simp add: rf hp)
  have fin0: "(\<not> (b0 AND finBit \<noteq> 0)) = (b0 AND finBit = 0)" by simp
  show ?thesis
    unfolding reason_def [symmetric] data_def [symmetric]
    using main frameErrors_members [where ?b0.0 = b0 and t = "uint (b0 AND 0xf)" and len = "uint (b1 AND 0x7f)" and final = "b0 AND finBit \<noteq> 0" and first = first]
    unfolding errs [symmetric]
    by (simp add: c1_def isControl_iff)
qed

theorem protocol_error_report_witness:
  "ReadMessage (newConn [0xF9, 0xFE] (\<lambda>i. None) True) =
     Some (Inl (ErrorString ''websocket: RSV bits set,len > 125 for control''),
           (newConn [0xF9, 0xFE] (\<lambda>i. None) True)
             \<lparr>br := [],
               wire := [0x88, 36] @ PutUint16 1002 @ bytes ''RSV bits set,len > 125 for control''\<rparr>)"
  using protocol_error_report [where c = "newConn [0xF9, 0xFE] (\<lambda>i. None) True"
      and ?b0.0 = "0xF9" and ?b1.0 = "0xFE" and rest = "[]"
      and errors = "[''RSV bits set'', ''len > 125 for control'']"
      and first = True and msg = "[]" and mtyp = noFrame and m = "(0, 0, 0, 0)"]
  by (simp add: ReadMessage_def newConn_def frameErrors_def)

text \<open>
  The claim as stated includes the MASK rule. A server that reads an unmasked frame
  returns the error "bad MASK" from the check that comes before the list of errors is
  made, and nothing is written to the peer.
\<close>

theorem bad_mask_counterexample:
  "map_option (\<lambda>(r, c'). (r, wire c')) (ReadMessage (newConn [0x81, 0x00] (\<lambda>i. None) True)) =
     Some (Inl (ErrorString ''bad MASK''), [])"
  unfolding ReadMessage_def
  by (subst readLoop.simps) (simp add: readFrame_def read_def Peek_def newConn_def)

text \<open>
  C7. The end of the stream inside a payload is not always reported. A server reads the
  header of a masked binary frame that announces 2048 payload bytes, and its mask key;
  then the stream ends. \<^verbatim>\<open>Peek\<close> is asked for more than the buffer holds, so it answers
  \<^verbatim>\<open>ErrBufferFull\<close> with no bytes, which \<^verbatim>\<open>Conn.read\<close> takes for success; the payload
  loop makes no progress and \<^verbatim>\<open>ReadMessage\<close> never returns. (The lemma \<open>eof_in_header\<close>
  above is the case that works: the end of the stream inside the two header bytes gives
  the \<open>CloseError\<close> with code 1006.)
\<close>

theorem eof_in_large_payload_never_returns:
  "ReadMessage (newConn [0x82, 0xFE, 0x08, 0x00, 1, 2, 3, 4] (\<lambda>i. None) True) = None"
proof -
  let ?c = "newConn [0x82, 0xFE, 0x08, 0x00, 1, 2, 3, 4] (\<lambda>i. None) True"
  have p: "readPayload 2048 [] (?c\<lparr>br := []\<rparr>) = None"
    by (rule readPayload_stuck) simp_all
  have l: "uint (Uint16 [0x08, 0x00]) = 2048"
    by (simp add: Uint16_def)
  have "readFrame True ?c = None"
    using p
    by (simp add: readFrame_def read_def Peek_def newConn_def frameErrors_def readLength_def
        readMaskKey_def l)
  then show ?thesis
    unfolding ReadMessage_def by (subst readLoop.simps) simp
qed

end
